theory Spec2Isabelle
  imports Complex_Main
begin

section \<open>Tensors\<close>

text \<open>
  The two scripts, \<open>convert_pcn_to_coreml.py\<close> and \<open>create_pcn_model.py\<close>, build
  their networks from the tensor library's modules.  Values are modelled in exact
  arithmetic over the reals.  A tensor is its shape together with its elements in
  row-major (contiguous) order, which is the layout \<open>view\<close> reads.  The exceptions the
  library raises on the paths of the two networks are of the three kinds below.
\<close>

datatype error = RuntimeError | IndexError | ValueError

record tensor =
  shape :: "nat list"
  data :: "real list"

definition numel :: "tensor \<Rightarrow> nat" where
  "numel t = prod_list (shape t)"

definition wf_tensor :: "tensor \<Rightarrow> bool" where
  "wf_tensor t \<longleftrightarrow> length (data t) = prod_list (shape t)"

text \<open>The \<open>r\<close> rows of width \<open>c\<close> of a row-major element list.\<close>

definition rows :: "nat \<Rightarrow> nat \<Rightarrow> 'a list \<Rightarrow> 'a list list" where
  "rows r c d = map (\<lambda>i. take c (drop (i * c) d)) [0..<r]"

text \<open>Row-major tabulation of a function of two indices.\<close>

definition tab2 :: "nat \<Rightarrow> nat \<Rightarrow> (nat \<Rightarrow> nat \<Rightarrow> 'a) \<Rightarrow> 'a list" where
  "tab2 m n f = concat (map (\<lambda>i. map (f i) [0..<n]) [0..<m])"

text \<open>\<open>t.view(*shp)\<close> with every size given.\<close>

definition view :: "tensor \<Rightarrow> nat list \<Rightarrow> error + tensor" where
  "view t shp =
     (if prod_list shp = numel t then Inr (t\<lparr>shape := shp\<rparr>) else Inl RuntimeError)"

text \<open>\<open>t.view(-1, *rest)\<close>: the leading size is inferred from the element count.\<close>

definition view_infer :: "tensor \<Rightarrow> nat list \<Rightarrow> error + tensor" where
  "view_infer t rest =
     (let p = prod_list rest; n = numel t
      in if p = 0 \<or> n mod p \<noteq> 0 then Inl RuntimeError
         else Inr (t\<lparr>shape := (n div p) # rest\<rparr>))"

definition max_list :: "real list \<Rightarrow> real" where
  "max_list xs = fold max (tl xs) (hd xs)"

text \<open>
  The values of \<open>torch.max(t, dim=d, keepdim=k)\<close>: the maximum along dimension \<open>d\<close>.
  A dimension out of range and a reduction over a dimension of size zero raise IndexError.
\<close>

definition torch_max :: "tensor \<Rightarrow> nat \<Rightarrow> bool \<Rightarrow> error + tensor" where
  "torch_max t d keepdim =
     (if length (shape t) \<le> d then Inl IndexError
      else let outer = prod_list (take d (shape t));
               n = shape t ! d;
               inner = prod_list (drop (Suc d) (shape t))
           in if n = 0 then Inl IndexError
              else Inr \<lparr>shape = take d (shape t) @ (if keepdim then [1] else [])
                                 @ drop (Suc d) (shape t),
                        data = tab2 outer inner
                          (\<lambda>i k. max_list (map (\<lambda>j. data t ! ((i * n + j) * inner + k)) [0..<n]))\<rparr>)"

section \<open>Layers\<close>

text \<open>
  Both scripts call \<open>model.eval()\<close> right after constructing the model and before every
  forward call, so the layers are modelled in evaluation mode: \<open>BatchNorm1d\<close> normalizes
  with its stored running statistics and updates nothing.  Training mode is not modelled.
  A \<open>BatchNorm1d\<close> of zero features can be constructed, but applying it raises
  IndexError.

  \<open>Linear i o W b\<close> is \<open>nn.Linear(i, o)\<close> with weight rows \<open>W\<close> (o rows of i entries)
  and bias \<open>b\<close>.  \<open>BatchNorm1d n g b m v e\<close> is \<open>nn.BatchNorm1d(n)\<close> with learned scale
  \<open>g\<close>, learned shift \<open>b\<close>, running mean \<open>m\<close>, running variance \<open>v\<close> and stability
  constant \<open>e\<close>.  \<open>Conv1d i o W b\<close> is \<open>nn.Conv1d(i, o, 1)\<close>, kernel size one, with the
  weight's trailing unit dimension dropped.
\<close>

datatype layer =
    Linear nat nat "real list list" "real list"
  | BatchNorm1d nat "real list" "real list" "real list" "real list" real
  | ReLU
  | Conv1d nat nat "real list list" "real list"

definition dot :: "real list \<Rightarrow> real list \<Rightarrow> real" where
  "dot w x = sum_list (map2 (*) w x)"

text \<open>The affine step on one feature vector: \<open>y = W x + b\<close>.\<close>

definition linear_row :: "real list list \<Rightarrow> real list \<Rightarrow> real list \<Rightarrow> real list" where
  "linear_row W b x = map2 (\<lambda>w b0. dot w x + b0) W b"

text \<open>
  The normalization of one value \<open>y\<close> of channel \<open>c\<close> in evaluation mode, the mode both
  scripts select with \<open>model.eval()\<close> before any forward call: only the stored
  statistics enter.
\<close>

definition bn_channel ::
  "real list \<Rightarrow> real list \<Rightarrow> real list \<Rightarrow> real list \<Rightarrow> real \<Rightarrow> nat \<Rightarrow> real \<Rightarrow> real" where
  "bn_channel g b m v e c y = (y - m ! c) / sqrt (v ! c + e) * g ! c + b ! c"

definition bn_row ::
  "real list \<Rightarrow> real list \<Rightarrow> real list \<Rightarrow> real list \<Rightarrow> real \<Rightarrow> real list \<Rightarrow> real list" where
  "bn_row g b m v e x = map (\<lambda>c. bn_channel g b m v e c (x ! c)) [0..<length x]"

definition relu :: "real \<Rightarrow> real" where
  "relu z = max 0 z"

fun layer_forward :: "layer \<Rightarrow> tensor \<Rightarrow> error + tensor" where
  "layer_forward (Linear n_in n_out W b) t =
     (if shape t = [] \<or> last (shape t) \<noteq> n_in then Inl RuntimeError
      else Inr \<lparr>shape = butlast (shape t) @ [n_out],
                data = concat (map (linear_row W b)
                                (rows (prod_list (butlast (shape t))) n_in (data t)))\<rparr>)"
| "layer_forward (BatchNorm1d nf g b m v e) t =
     (case shape t of
        [r, c] \<Rightarrow>
          if c \<noteq> nf then Inl RuntimeError
          else if nf = 0 then Inl IndexError
          else Inr \<lparr>shape = [r, c], data = concat (map (bn_row g b m v e) (rows r c (data t)))\<rparr>
      | [bs, c, l] \<Rightarrow>
          if c \<noteq> nf then Inl RuntimeError
          else if nf = 0 then Inl IndexError
          else Inr \<lparr>shape = [bs, c, l],
                    data = concat (map (\<lambda>i. tab2 c l
                      (\<lambda>ch j. bn_channel g b m v e ch (data t ! ((i * c + ch) * l + j)))) [0..<bs])\<rparr>
      | _ \<Rightarrow> Inl ValueError)"
| "layer_forward ReLU t = Inr (t\<lparr>data := map relu (data t)\<rparr>)"
| "layer_forward (Conv1d inc outc W b) t =
     (case shape t of
        [bs, c, l] \<Rightarrow>
          if c \<noteq> inc \<or> l = 0 then Inl RuntimeError
          else Inr \<lparr>shape = [bs, outc, l],
                    data = concat (map (\<lambda>i. tab2 outc l
                      (\<lambda>oc j. dot (W ! oc) (map (\<lambda>ch. data t ! ((i * c + ch) * l + j)) [0..<c])
                                + b ! oc)) [0..<bs])\<rparr>
      | [c, l] \<Rightarrow>
          if c \<noteq> inc \<or> l = 0 then Inl RuntimeError
          else Inr \<lparr>shape = [outc, l],
                    data = tab2 outc l
                      (\<lambda>oc j. dot (W ! oc) (map (\<lambda>ch. data t ! (ch * l + j)) [0..<c]) + b ! oc)\<rparr>
      | _ \<Rightarrow> Inl RuntimeError)"

text \<open>\<open>nn.Sequential\<close>: the layers in order, the first exception ending the call.\<close>

fun Sequential_forward :: "layer list \<Rightarrow> tensor \<Rightarrow> error + tensor" where
  "Sequential_forward [] t = Inr t"
| "Sequential_forward (l # ls) t =
     (case layer_forward l t of Inl e \<Rightarrow> Inl e | Inr t' \<Rightarrow> Sequential_forward ls t')"

section \<open>Module construction\<close>

text \<open>
  The declared kind and sizes of a layer, and the parameter shapes the constructors
  allocate for them.  \<open>nn.BatchNorm1d\<close> is built with its default stability constant.
\<close>

datatype kind = KLinear nat nat | KBatchNorm1d nat | KReLU | KConv1d nat nat

fun kind_of :: "layer \<Rightarrow> kind" where
  "kind_of (Linear n_in n_out W b) = KLinear n_in n_out"
| "kind_of (BatchNorm1d nf g b m v e) = KBatchNorm1d nf"
| "kind_of ReLU = KReLU"
| "kind_of (Conv1d inc outc W b) = KConv1d inc outc"

fun wf_layer :: "layer \<Rightarrow> bool" where
  "wf_layer (Linear n_in n_out W b) \<longleftrightarrow>
     length W = n_out \<and> list_all (\<lambda>w. length w = n_in) W \<and> length b = n_out"
| "wf_layer (BatchNorm1d nf g b m v e) \<longleftrightarrow>
     length g = nf \<and> length b = nf \<and> length m = nf \<and> length v = nf \<and> e = 1 / 100000"
| "wf_layer ReLU \<longleftrightarrow> True"
| "wf_layer (Conv1d inc outc W b) \<longleftrightarrow>
     length W = outc \<and> list_all (\<lambda>w. length w = inc) W \<and> length b = outc"

text \<open>
  The pseudo-random generator is the stream of its unit draws; drawing advances it.
  \<open>nn_init_uniform\<close> (the library's \<open>uniform_\<close>) fills \<open>n\<close> entries with \<open>lo + (hi - lo) * u\<close>.
\<close>

type_synonym generator = "nat \<Rightarrow> real"

definition nn_init_uniform :: "nat \<Rightarrow> real \<Rightarrow> real \<Rightarrow> generator \<Rightarrow> real list \<times> generator" where
  "nn_init_uniform n lo hi g = (map (\<lambda>i. lo + (hi - lo) * g i) [0..<n], \<lambda>i. g (i + n))"

text \<open>
  The library's default parameter initialisation of an affine layer with \<open>fan_in\<close>
  inputs: weights uniform within the Kaiming bound for slope \<open>sqrt 5\<close>, biases uniform
  within \<open>1 / sqrt fan_in\<close>.
\<close>

definition kaiming_bound :: "nat \<Rightarrow> real" where
  "kaiming_bound fan_in = sqrt 3 * (sqrt (2 / (1 + (sqrt 5)\<^sup>2)) / sqrt (real fan_in))"

definition bias_bound :: "nat \<Rightarrow> real" where
  "bias_bound fan_in = (if fan_in > 0 then 1 / sqrt (real fan_in) else 0)"

definition nn_Linear :: "nat \<Rightarrow> nat \<Rightarrow> generator \<Rightarrow> layer \<times> generator" where
  "nn_Linear n_in n_out g =
     (let (w, g1) = nn_init_uniform (n_out * n_in) (- kaiming_bound n_in) (kaiming_bound n_in) g;
          (b, g2) = nn_init_uniform n_out (- bias_bound n_in) (bias_bound n_in) g1
      in (Linear n_in n_out (rows n_out n_in w) b, g2))"

definition nn_Conv1d :: "nat \<Rightarrow> nat \<Rightarrow> generator \<Rightarrow> layer \<times> generator" where
  "nn_Conv1d inc outc g =
     (let (w, g1) = nn_init_uniform (outc * inc) (- kaiming_bound inc) (kaiming_bound inc) g;
          (b, g2) = nn_init_uniform outc (- bias_bound inc) (bias_bound inc) g1
      in (Conv1d inc outc (rows outc inc w) b, g2))"

definition nn_BatchNorm1d :: "nat \<Rightarrow> layer" where
  "nn_BatchNorm1d nf =
     BatchNorm1d nf (replicate nf 1) (replicate nf 0) (replicate nf 0) (replicate nf 1) (1 / 100000)"

section \<open>SimplePCN\<close>

record SimplePCN =
  input_points :: nat
  output_points :: nat
  feature_dim :: nat
  encoder :: "layer list"
  decoder :: "layer list"

text \<open>
  \<open>SimplePCN.__init__\<close>: the two \<open>nn.Sequential\<close> stacks, their affine layers drawn from
  the generator in order of construction.
\<close>

definition SimplePCN_init :: "nat \<Rightarrow> nat \<Rightarrow> nat \<Rightarrow> generator \<Rightarrow> SimplePCN \<times> generator" where
  "SimplePCN_init input_points0 output_points0 feature_dim0 g =
     (let (e1, g1) = nn_Linear 3 128 g;
          (e2, g2) = nn_Linear 128 256 g1;
          (e3, g3) = nn_Linear 256 feature_dim0 g2;
          (d1, g4) = nn_Linear feature_dim0 1024 g3;
          (d2, g5) = nn_Linear 1024 2048 g4;
          (d3, g6) = nn_Linear 2048 (output_points0 * 3) g5
      in (\<lparr>input_points = input_points0, output_points = output_points0,
           feature_dim = feature_dim0,
           encoder = [e1, nn_BatchNorm1d 128, ReLU,
                      e2, nn_BatchNorm1d 256, ReLU,
                      e3, nn_BatchNorm1d feature_dim0, ReLU],
           decoder = [d1, nn_BatchNorm1d 1024, ReLU,
                      d2, nn_BatchNorm1d 2048, ReLU,
                      d3]\<rparr>, g6))"

text \<open>\<open>create_model\<close>: the fixed sizes, evaluation mode, no further initialisation.\<close>

definition create_model :: "generator \<Rightarrow> SimplePCN \<times> generator" where
  "create_model g = SimplePCN_init 1024 2048 512 g"

text \<open>
  An instance of the class with any parameter values (freshly initialised or loaded
  from a checkpoint): the layer kinds and sizes are those of \<open>__init__\<close>.
\<close>

definition SimplePCN_encoder_kinds :: "nat \<Rightarrow> kind list" where
  "SimplePCN_encoder_kinds fd =
     [KLinear 3 128, KBatchNorm1d 128, KReLU,
      KLinear 128 256, KBatchNorm1d 256, KReLU,
      KLinear 256 fd, KBatchNorm1d fd, KReLU]"

definition SimplePCN_decoder_kinds :: "nat \<Rightarrow> nat \<Rightarrow> kind list" where
  "SimplePCN_decoder_kinds fd outp =
     [KLinear fd 1024, KBatchNorm1d 1024, KReLU,
      KLinear 1024 2048, KBatchNorm1d 2048, KReLU,
      KLinear 2048 (outp * 3)]"

definition valid_SimplePCN :: "SimplePCN \<Rightarrow> bool" where
  "valid_SimplePCN self \<longleftrightarrow>
     map kind_of (encoder self) = SimplePCN_encoder_kinds (feature_dim self) \<and>
     map kind_of (decoder self) = SimplePCN_decoder_kinds (feature_dim self) (output_points self) \<and>
     list_all wf_layer (encoder self) \<and> list_all wf_layer (decoder self)"

text \<open>
  \<open>SimplePCN.forward\<close> up to the global max pooling: the value of \<open>global_feature\<close>.
  Reading \<open>shape[0]\<close> and \<open>shape[1]\<close> of a tensor with fewer than two dimensions
  raises IndexError.
\<close>

definition SimplePCN_global_feature :: "SimplePCN \<Rightarrow> tensor \<Rightarrow> error + tensor" where
  "SimplePCN_global_feature self partial_cloud =
     (case shape partial_cloud of
        batch_size # num_points # _ \<Rightarrow>
          (case view_infer partial_cloud [3] of Inl e \<Rightarrow> Inl e | Inr x \<Rightarrow>
          (case Sequential_forward (encoder self) x of Inl e \<Rightarrow> Inl e | Inr features \<Rightarrow>
          (case view features [batch_size, num_points, feature_dim self] of
             Inl e \<Rightarrow> Inl e
           | Inr features3 \<Rightarrow> torch_max features3 1 False)))
      | _ \<Rightarrow> Inl IndexError)"

text \<open>The rest of \<open>SimplePCN.forward\<close>: decode, then reshape to points.\<close>

definition SimplePCN_forward :: "SimplePCN \<Rightarrow> tensor \<Rightarrow> error + tensor" where
  "SimplePCN_forward self partial_cloud =
     (case SimplePCN_global_feature self partial_cloud of
        Inl e \<Rightarrow> Inl e
      | Inr global_feature \<Rightarrow>
          (case Sequential_forward (decoder self) global_feature of
             Inl e \<Rightarrow> Inl e
           | Inr completed \<Rightarrow>
               view completed [hd (shape partial_cloud), output_points self, 3]))"

section \<open>PointCloudCompletionNet\<close>

text \<open>\<open>t.transpose(1, 2)\<close>, the result laid out row-major.\<close>

definition transpose12 :: "tensor \<Rightarrow> error + tensor" where
  "transpose12 t =
     (case shape t of
        b # r # c # rest \<Rightarrow>
          let inner = prod_list rest
          in Inr \<lparr>shape = b # c # r # rest,
                  data = concat (map (\<lambda>i. concat (tab2 c r
                    (\<lambda>cc rr. map (\<lambda>q. data t ! (((i * r + rr) * c + cc) * inner + q)) [0..<inner])))
                    [0..<b])\<rparr>
      | _ \<Rightarrow> Inl IndexError)"

text \<open>\<open>t.squeeze(-1)\<close>: a trailing dimension of size one is dropped.\<close>

definition squeeze_last :: "tensor \<Rightarrow> tensor" where
  "squeeze_last t =
     (if shape t \<noteq> [] \<and> last (shape t) = 1 then t\<lparr>shape := butlast (shape t)\<rparr> else t)"

record PointCloudEncoder =
  conv1 :: layer
  conv2 :: layer
  conv3 :: layer
  bn1 :: layer
  bn2 :: layer
  bn3 :: layer

record PointCloudDecoder =
  dec_output_points :: nat
  fc1 :: layer
  fc2 :: layer
  fc3 :: layer
  dec_bn1 :: layer
  dec_bn2 :: layer

record PointCloudCompletionNet =
  net_input_points :: nat
  net_output_points :: nat
  net_encoder :: PointCloudEncoder
  net_decoder :: PointCloudDecoder

definition PointCloudEncoder_init ::
  "nat \<Rightarrow> nat \<Rightarrow> generator \<Rightarrow> PointCloudEncoder \<times> generator" where
  "PointCloudEncoder_init input_dim feature_dim0 g =
     (let (c1, g1) = nn_Conv1d input_dim 64 g;
          (c2, g2) = nn_Conv1d 64 128 g1;
          (c3, g3) = nn_Conv1d 128 feature_dim0 g2
      in (\<lparr>conv1 = c1, conv2 = c2, conv3 = c3,
           bn1 = nn_BatchNorm1d 64, bn2 = nn_BatchNorm1d 128,
           bn3 = nn_BatchNorm1d feature_dim0\<rparr>, g3))"

definition PointCloudDecoder_init ::
  "nat \<Rightarrow> nat \<Rightarrow> generator \<Rightarrow> PointCloudDecoder \<times> generator" where
  "PointCloudDecoder_init feature_dim0 output_points0 g =
     (let (f1, g1) = nn_Linear feature_dim0 2048 g;
          (f2, g2) = nn_Linear 2048 4096 g1;
          (f3, g3) = nn_Linear 4096 (output_points0 * 3) g2
      in (\<lparr>dec_output_points = output_points0, fc1 = f1, fc2 = f2, fc3 = f3,
           dec_bn1 = nn_BatchNorm1d 2048, dec_bn2 = nn_BatchNorm1d 4096\<rparr>, g3))"

definition PointCloudCompletionNet_init ::
  "nat \<Rightarrow> nat \<Rightarrow> generator \<Rightarrow> PointCloudCompletionNet \<times> generator" where
  "PointCloudCompletionNet_init input_points0 output_points0 g =
     (let (enc, g1) = PointCloudEncoder_init 3 1024 g;
          (dec, g2) = PointCloudDecoder_init 1024 output_points0 g1
      in (\<lparr>net_input_points = input_points0, net_output_points = output_points0,
           net_encoder = enc, net_decoder = dec\<rparr>, g2))"

text \<open>
  The two \<open>forward\<close> methods compose their layers by nested application,
  \<open>relu(bn1(conv1(x)))\<close> and so on; the lists below are those layers in the order
  applied.
\<close>

definition PointCloudEncoder_layers :: "PointCloudEncoder \<Rightarrow> layer list" where
  "PointCloudEncoder_layers self =
     [conv1 self, bn1 self, ReLU, conv2 self, bn2 self, ReLU, conv3 self, bn3 self, ReLU]"

definition PointCloudDecoder_layers :: "PointCloudDecoder \<Rightarrow> layer list" where
  "PointCloudDecoder_layers self =
     [fc1 self, dec_bn1 self, ReLU, fc2 self, dec_bn2 self, ReLU, fc3 self]"

definition PointCloudEncoder_forward :: "PointCloudEncoder \<Rightarrow> tensor \<Rightarrow> error + tensor" where
  "PointCloudEncoder_forward self x =
     (case Sequential_forward (PointCloudEncoder_layers self) x of
        Inl e \<Rightarrow> Inl e
      | Inr x' \<Rightarrow> torch_max x' 2 True)"

definition PointCloudDecoder_forward :: "PointCloudDecoder \<Rightarrow> tensor \<Rightarrow> error + tensor" where
  "PointCloudDecoder_forward self x =
     (case Sequential_forward (PointCloudDecoder_layers self) (squeeze_last x) of
        Inl e \<Rightarrow> Inl e
      | Inr x' \<Rightarrow> view_infer x' [dec_output_points self, 3])"

definition PointCloudCompletionNet_forward ::
  "PointCloudCompletionNet \<Rightarrow> tensor \<Rightarrow> error + tensor" where
  "PointCloudCompletionNet_forward self x =
     (case transpose12 x of Inl e \<Rightarrow> Inl e | Inr xt \<Rightarrow>
     (case PointCloudEncoder_forward (net_encoder self) xt of Inl e \<Rightarrow> Inl e | Inr features \<Rightarrow>
      PointCloudDecoder_forward (net_decoder self) features))"

text \<open>
  \<open>init_weights\<close>, and \<open>model.apply(init_weights)\<close> visiting the affine layers in
  order of registration: Xavier-uniform weights (gain one), zero biases.
\<close>

definition xavier_bound :: "nat \<Rightarrow> nat \<Rightarrow> real" where
  "xavier_bound fan_in fan_out = sqrt (6 / real (fan_in + fan_out))"

fun init_weights :: "layer \<Rightarrow> generator \<Rightarrow> layer \<times> generator" where
  "init_weights (Linear n_in n_out W b) g =
     (let (w, g1) = nn_init_uniform (n_out * n_in) (- xavier_bound n_in n_out) (xavier_bound n_in n_out) g
      in (Linear n_in n_out (rows n_out n_in w) (replicate n_out 0), g1))"
| "init_weights (Conv1d inc outc W b) g =
     (let (w, g1) = nn_init_uniform (outc * inc) (- xavier_bound inc outc) (xavier_bound inc outc) g
      in (Conv1d inc outc (rows outc inc w) (replicate outc 0), g1))"
| "init_weights m g = (m, g)"

definition apply_init_weights ::
  "PointCloudCompletionNet \<Rightarrow> generator \<Rightarrow> PointCloudCompletionNet \<times> generator" where
  "apply_init_weights self g =
     (let enc = net_encoder self; dec = net_decoder self;
          (c1, g1) = init_weights (conv1 enc) g;
          (c2, g2) = init_weights (conv2 enc) g1;
          (c3, g3) = init_weights (conv3 enc) g2;
          (f1, g4) = init_weights (fc1 dec) g3;
          (f2, g5) = init_weights (fc2 dec) g4;
          (f3, g6) = init_weights (fc3 dec) g5
      in (self\<lparr>net_encoder := enc\<lparr>conv1 := c1, conv2 := c2, conv3 := c3\<rparr>,
                net_decoder := dec\<lparr>fc1 := f1, fc2 := f2, fc3 := f3\<rparr>\<rparr>, g6))"

text \<open>The model the second script builds: sizes 1024 and 2048, then \<open>init_weights\<close>.\<close>

definition create_pcn_model :: "generator \<Rightarrow> PointCloudCompletionNet \<times> generator" where
  "create_pcn_model g =
     (let (model, g1) = PointCloudCompletionNet_init 1024 2048 g
      in apply_init_weights model g1)"

definition PointCloudEncoder_kinds :: "nat \<Rightarrow> nat \<Rightarrow> kind list" where
  "PointCloudEncoder_kinds input_dim fd =
     [KConv1d input_dim 64, KBatchNorm1d 64, KReLU,
      KConv1d 64 128, KBatchNorm1d 128, KReLU,
      KConv1d 128 fd, KBatchNorm1d fd, KReLU]"

definition PointCloudDecoder_kinds :: "nat \<Rightarrow> nat \<Rightarrow> kind list" where
  "PointCloudDecoder_kinds fd outp =
     [KLinear fd 2048, KBatchNorm1d 2048, KReLU,
      KLinear 2048 4096, KBatchNorm1d 4096, KReLU,
      KLinear 4096 (outp * 3)]"

definition valid_PointCloudCompletionNet :: "PointCloudCompletionNet \<Rightarrow> bool" where
  "valid_PointCloudCompletionNet self \<longleftrightarrow>
     map kind_of (PointCloudEncoder_layers (net_encoder self)) = PointCloudEncoder_kinds 3 1024 \<and>
     map kind_of (PointCloudDecoder_layers (net_decoder self)) =
       PointCloudDecoder_kinds 1024 (net_output_points self) \<and>
     dec_output_points (net_decoder self) = net_output_points self \<and>
     list_all wf_layer (PointCloudEncoder_layers (net_encoder self)) \<and>
     list_all wf_layer (PointCloudDecoder_layers (net_decoder self))"

section \<open>Notions used to state the properties\<close>

text \<open>
  What one layer, and a stack of layers, computes on a single feature vector.
\<close>

fun layer_point :: "layer \<Rightarrow> real list \<Rightarrow> real list" where
  "layer_point (Linear n_in n_out W b) x = linear_row W b x"
| "layer_point (BatchNorm1d nf g b m v e) x = bn_row g b m v e x"
| "layer_point ReLU x = map relu x"
| "layer_point (Conv1d inc outc W b) x = linear_row W b x"

definition point_forward :: "layer list \<Rightarrow> real list \<Rightarrow> real list" where
  "point_forward ls x = fold layer_point ls x"

text \<open>
  Declared sizes chain when each layer's declared input size is the size the previous
  layer declared as its output; \<open>chain ks c\<close> is the size that leaves the stack.
\<close>

fun kind_out :: "kind \<Rightarrow> nat \<Rightarrow> nat option" where
  "kind_out (KLinear n_in n_out) c = (if c = n_in then Some n_out else None)"
| "kind_out (KBatchNorm1d nf) c = (if c = nf then Some nf else None)"
| "kind_out KReLU c = Some c"
| "kind_out (KConv1d inc outc) c = (if c = inc then Some outc else None)"

fun chain :: "kind list \<Rightarrow> nat \<Rightarrow> nat option" where
  "chain [] c = Some c"
| "chain (k # ks) c = (case kind_out k c of None \<Rightarrow> None | Some c' \<Rightarrow> chain ks c')"

text \<open>
  The layers that act on each row of a two-dimensional batch, and those that act on each
  column of a channel-major three-dimensional batch, without raising: a normalization
  layer among them has at least one feature.
\<close>

fun rowwise_kind :: "kind \<Rightarrow> bool" where
  "rowwise_kind (KConv1d inc outc) = False"
| "rowwise_kind (KBatchNorm1d nf) = (0 < nf)"
| "rowwise_kind k = True"

fun channelwise_kind :: "kind \<Rightarrow> bool" where
  "channelwise_kind (KLinear n_in n_out) = False"
| "channelwise_kind (KBatchNorm1d nf) = (0 < nf)"
| "channelwise_kind k = True"

text \<open>The points of cloud \<open>b\<close> of a batch of shape \<open>[B, N, D]\<close>, in order.\<close>

definition cloud :: "tensor \<Rightarrow> nat \<Rightarrow> real list list" where
  "cloud t b =
     (let n = shape t ! 1; d = shape t ! 2
      in map (\<lambda>j. take d (drop ((b * n + j) * d) (data t))) [0..<n])"

text \<open>The channel-wise maximum of a list of feature vectors of width \<open>fd\<close>.\<close>

definition global_max :: "nat \<Rightarrow> real list list \<Rightarrow> real list" where
  "global_max fd fs = map (\<lambda>k. max_list (map (\<lambda>f. f ! k) fs)) [0..<fd]"

text \<open>A batch of shape \<open>[B, C, N]\<close> given by the feature vector of each point.\<close>

definition cols :: "nat \<Rightarrow> nat \<Rightarrow> nat \<Rightarrow> (nat \<Rightarrow> nat \<Rightarrow> real list) \<Rightarrow> tensor" where
  "cols B C N f =
     \<lparr>shape = [B, C, N], data = concat (map (\<lambda>i. tab2 C N (\<lambda>ch j. f i j ! ch)) [0..<B])\<rparr>"

text \<open>The element of a tensor at a multi-index, by its row-major offset.\<close>

definition offset :: "nat list \<Rightarrow> nat list \<Rightarrow> nat" where
  "offset shp idx = foldl (\<lambda>acc (s, i). acc * s + i) 0 (zip shp idx)"

definition item :: "tensor \<Rightarrow> nat list \<Rightarrow> real" where
  "item t idx = data t ! offset (shape t) idx"

text \<open>The weight rows and the bias of an affine layer.\<close>

fun layer_weight :: "layer \<Rightarrow> real list list" where
  "layer_weight (Linear n_in n_out W b) = W"
| "layer_weight (Conv1d inc outc W b) = W"
| "layer_weight l = []"

fun layer_bias :: "layer \<Rightarrow> real list" where
  "layer_bias (Linear n_in n_out W b) = b"
| "layer_bias (Conv1d inc outc W b) = b"
| "layer_bias l = []"

text \<open>
  The decoder as the specification words it: a stack of hidden layers, each an affine
  transform \<open>y = W x + b\<close>, then the normalization
  \<open>scale * (y - mean) / sqrt (var + eps) + shift\<close>, then the clamp \<open>max 0\<close>; and a
  final layer that is the affine transform alone.
\<close>

definition spec_affine :: "layer \<Rightarrow> real list \<Rightarrow> real list" where
  "spec_affine l x = linear_row (layer_weight l) (layer_bias l) x"

fun spec_normalize :: "layer \<Rightarrow> real list \<Rightarrow> real list" where
  "spec_normalize (BatchNorm1d nf g b m v e) x =
     map (\<lambda>c. g ! c * (x ! c - m ! c) / sqrt (v ! c + e) + b ! c) [0..<length x]"
| "spec_normalize l x = x"

definition spec_clamp :: "real list \<Rightarrow> real list" where
  "spec_clamp x = map (max 0) x"

definition spec_decoder :: "(layer \<times> layer) list \<Rightarrow> layer \<Rightarrow> real list \<Rightarrow> real list" where
  "spec_decoder hidden final x =
     spec_affine final (fold (\<lambda>(l, n) y. spec_clamp (spec_normalize n (spec_affine l y))) hidden x)"

text \<open>
  The generator after \<open>k\<close> draws, and \<open>n\<close> consecutive draws from position \<open>k\<close>
  scaled onto \<open>[-a, a]\<close>: the values an initializer writes.
\<close>

definition advance :: "generator \<Rightarrow> nat \<Rightarrow> generator" where
  "advance g k = (\<lambda>i. g (i + k))"

definition scaled_draws :: "generator \<Rightarrow> nat \<Rightarrow> real \<Rightarrow> nat \<Rightarrow> real list" where
  "scaled_draws g k a n = map (\<lambda>j. - a + 2 * a * g (k + j)) [0..<n]"

definition xavier_rows :: "generator \<Rightarrow> nat \<Rightarrow> nat \<Rightarrow> nat \<Rightarrow> real list list" where
  "xavier_rows g k n_in n_out =
     rows n_out n_in (scaled_draws g k (xavier_bound n_in n_out) (n_out * n_in))"

definition default_rows :: "generator \<Rightarrow> nat \<Rightarrow> nat \<Rightarrow> nat \<Rightarrow> real list list" where
  "default_rows g k n_in n_out =
     rows n_out n_in (scaled_draws g k (kaiming_bound n_in) (n_out * n_in))"

definition default_bias :: "generator \<Rightarrow> nat \<Rightarrow> nat \<Rightarrow> nat \<Rightarrow> real list" where
  "default_bias g k n_in n_out = scaled_draws g k (bias_bound n_in) n_out"

section \<open>Concrete inputs and models\<close>

text \<open>
  One cloud of two points; the same points reordered with one repeated; an empty cloud;
  a cloud of one point with two coordinates.
\<close>

definition two_points :: tensor where
  "two_points = \<lparr>shape = [1, 2, 3], data = [0, 0, 0, 1, 2, 3]\<rparr>"

definition three_points :: tensor where
  "three_points = \<lparr>shape = [1, 3, 3], data = [1, 2, 3, 0, 0, 0, 1, 2, 3]\<rparr>"

definition empty_cloud :: tensor where
  "empty_cloud = \<lparr>shape = [1, 0, 3], data = []\<rparr>"

definition flat_cloud :: tensor where
  "flat_cloud = \<lparr>shape = [1, 1, 2], data = [0, 0]\<rparr>"


section \<open>Row-major lists\<close>

lemma length_tab2 [simp]: "length (tab2 m n f) = m * n"
  by (induction m) (simp_all add: tab2_def)

lemma tab2_Suc: "tab2 (Suc m) n f = tab2 m n f @ map (f m) [0..<n]"
  by (simp add: tab2_def)

lemma nth_tab2: "i < m \<Longrightarrow> j < n \<Longrightarrow> tab2 m n f ! (i * n + j) = f i j"
proof (induction m)
  case 0
  then show ?case by simp
next
  case (Suc m)
  show ?case
  proof (cases "i < m")
    case True
    then have "i * n + j < m * n"
      using Suc.prems(2) by (metis add.commute less_Suc_eq_le mult_Suc mult_le_mono1 nat_add_left_cancel_less order_less_le_trans Suc_leI)
    with True Suc show ?thesis by (simp add: tab2_Suc nth_append)
  next
    case False
    with Suc.prems have "i = m" by simp
    with Suc.prems show ?thesis by (simp add: tab2_Suc nth_append)
  qed
qed

lemma length_rows [simp]: "length (rows r c d) = r"
  by (simp add: rows_def)

lemma rows_Suc: "rows (Suc r) c d = rows r c d @ [take c (drop (r * c) d)]"
  by (simp add: rows_def)

lemma concat_rows: "length d = r * c \<Longrightarrow> concat (rows r c d) = d"
proof (induction r arbitrary: d)
  case 0
  then show ?case by (simp add: rows_def)
next
  case (Suc r)
  have "concat (rows r c (take (r * c) d)) = take (r * c) d"
    using Suc.prems by (intro Suc.IH) simp
  moreover have "rows r c (take (r * c) d) = rows r c d"
    unfolding rows_def
  proof (rule map_cong[OF refl])
    fix i assume "i \<in> set [0..<r]"
    then have "i * c + c \<le> r * c"
      by (metis atLeastLessThan_iff mult_Suc Suc_leI mult_le_mono1 set_upt add.commute)
    then show "take c (drop (i * c) (take (r * c) d)) = take c (drop (i * c) d)"
      by (simp add: drop_take min_def)
  qed
  ultimately show ?case using Suc.prems
    by (simp add: rows_Suc)
qed

lemma rows_concat:
  "length xs = r \<Longrightarrow> list_all (\<lambda>x. length x = c) xs \<Longrightarrow> rows r c (concat xs) = xs"
proof (induction xs arbitrary: r rule: rev_induct)
  case Nil
  then show ?case by (simp add: rows_def)
next
  case (snoc x xs)
  then obtain r' where r: "r = Suc r'" "length xs = r'" by auto
  have len: "length (concat xs) = r' * c"
    using snoc.prems(2) r(2) by (induction xs arbitrary: r') (auto)
  have "rows r' c (concat xs @ x) = rows r' c (concat xs)"
    unfolding rows_def
  proof (rule map_cong[OF refl])
    fix i assume "i \<in> set [0..<r']"
    then have "i * c + c \<le> r' * c"
      by (metis atLeastLessThan_iff mult_Suc Suc_leI mult_le_mono1 set_upt add.commute)
    then show "take c (drop (i * c) (concat xs @ x)) = take c (drop (i * c) (concat xs))"
      using len by simp
  qed
  then show ?case using snoc r len by (simp add: rows_Suc)
qed

lemma max_list_Max: "xs \<noteq> [] \<Longrightarrow> max_list xs = Max (set xs)"
  by (cases xs) (simp_all add: max_list_def Max.set_eq_fold[symmetric])






lemma length_concat_uniform:
  "list_all (\<lambda>x. length x = c) xs \<Longrightarrow> length (concat xs) = length xs * c"
  by (induction xs) auto

section \<open>Layers on batches of feature vectors\<close>

lemma length_layer_point:
  "wf_layer l \<Longrightarrow> kind_out (kind_of l) c = Some c' \<Longrightarrow> length x = c \<Longrightarrow>
   length (layer_point l x) = c'"
  by (cases l) (auto simp: linear_row_def bn_row_def split: if_splits)

lemma layer_point_eta:
  "layer_point (Linear n_in n_out W b) = linear_row W b"
  "layer_point (BatchNorm1d nf g b0 m v e) = bn_row g b0 m v e"
  "layer_point ReLU = map relu"
  by (rule ext, simp)+

lemma layer_forward_rows:
  assumes "wf_layer l" "kind_out (kind_of l) c = Some c'" "rowwise_kind (kind_of l)"
    and "length xs = r" "list_all (\<lambda>x. length x = c) xs"
  shows "layer_forward l \<lparr>shape = [r, c], data = concat xs\<rparr> =
         Inr \<lparr>shape = [r, c'], data = concat (map (layer_point l) xs)\<rparr>"
proof (cases l)
  case (Linear n_in n_out W b)
  with assms show ?thesis by (simp add: rows_concat layer_point_eta split: if_splits)
next
  case (BatchNorm1d nf g b m v e)
  with assms show ?thesis by (simp add: rows_concat layer_point_eta split: if_splits)
next
  case ReLU
  with assms show ?thesis by (simp add: map_concat layer_point_eta)
next
  case (Conv1d inc outc W b)
  with assms show ?thesis by simp
qed

lemma list_all_layer_point:
  "wf_layer l \<Longrightarrow> kind_out (kind_of l) c = Some c' \<Longrightarrow> list_all (\<lambda>x. length x = c) xs \<Longrightarrow>
   list_all (\<lambda>x. length x = c') (map (layer_point l) xs)"
  by (simp add: list_all_iff length_layer_point)

lemma Sequential_forward_rows:
  assumes "list_all wf_layer ls" "chain (map kind_of ls) c = Some c'"
    and "list_all rowwise_kind (map kind_of ls)"
    and "length xs = r" "list_all (\<lambda>x. length x = c) xs"
  shows "Sequential_forward ls \<lparr>shape = [r, c], data = concat xs\<rparr> =
         Inr \<lparr>shape = [r, c'], data = concat (map (point_forward ls) xs)\<rparr>"
  using assms
proof (induction ls arbitrary: c xs)
  case Nil
  then show ?case by (simp add: point_forward_def)
next
  case (Cons l ls)
  from Cons.prems(2) obtain c1 where c1: "kind_out (kind_of l) c = Some c1"
    and ch: "chain (map kind_of ls) c1 = Some c'"
    by (auto split: option.splits)
  have fw: "layer_forward l \<lparr>shape = [r, c], data = concat xs\<rparr> =
        Inr \<lparr>shape = [r, c1], data = concat (map (layer_point l) xs)\<rparr>"
    using Cons.prems c1 by (intro layer_forward_rows) simp_all
  have "Sequential_forward ls \<lparr>shape = [r, c1], data = concat (map (layer_point l) xs)\<rparr> =
        Inr \<lparr>shape = [r, c'], data = concat (map (point_forward ls) (map (layer_point l) xs))\<rparr>"
    using Cons.prems c1 ch by (intro Cons.IH list_all_layer_point) simp_all
  then show ?case by (simp add: fw point_forward_def comp_def)
qed

lemma length_point_forward:
  "list_all wf_layer ls \<Longrightarrow> chain (map kind_of ls) c = Some c' \<Longrightarrow> length x = c \<Longrightarrow>
   length (point_forward ls x) = c'"
proof (induction ls arbitrary: c x)
  case Nil
  then show ?case by (simp add: point_forward_def)
next
  case (Cons l ls)
  then show ?case
    by (auto simp: point_forward_def split: option.splits dest: length_layer_point)
qed



lemma nth_concat_uniform:
  assumes "list_all (\<lambda>x. length x = c) xs" "i < length xs" "k < c"
  shows "concat xs ! (i * c + k) = xs ! i ! k"
proof -
  have "concat xs = tab2 (length xs) c (\<lambda>i k. xs ! i ! k)"
    unfolding tab2_def
  proof (rule arg_cong[where f = concat], rule nth_equalityI)
    show "length xs = length (map (\<lambda>i. map ((!) (xs ! i)) [0..<c]) [0..<length xs])" by simp
  next
    fix i assume i: "i < length xs"
    with assms(1) have "length (xs ! i) = c" by (simp add: list_all_length)
    then have "map ((!) (xs ! i)) [0..<c] = xs ! i" by (metis map_nth)
    with i show "xs ! i = map (\<lambda>i. map ((!) (xs ! i)) [0..<c]) [0..<length xs] ! i" by simp
  qed
  with assms show ?thesis by (simp add: nth_tab2)
qed

lemma index2_less: "i < (m::nat) \<Longrightarrow> j < n \<Longrightarrow> i * n + j < m * n"
proof -
  assume a: "i < m" "j < n"
  then have "i * n + j < i * n + n" by simp
  also have "\<dots> = Suc i * n" by simp
  also have "\<dots> \<le> m * n" using a(1) by (intro mult_le_mono1) simp
  finally show ?thesis .
qed

section \<open>The forward pass of SimplePCN\<close>

lemma chain_SimplePCN_encoder: "chain (SimplePCN_encoder_kinds fd) 3 = Some fd"
  by (simp add: SimplePCN_encoder_kinds_def)

lemma chain_SimplePCN_decoder: "chain (SimplePCN_decoder_kinds fd outp) fd = Some (outp * 3)"
  by (simp add: SimplePCN_decoder_kinds_def)

lemma rowwise_SimplePCN:
  "0 < fd \<Longrightarrow> list_all rowwise_kind (SimplePCN_encoder_kinds fd)"
  "list_all rowwise_kind (SimplePCN_decoder_kinds fd outp)"
  by (simp_all add: SimplePCN_encoder_kinds_def SimplePCN_decoder_kinds_def)

lemma view_infer_points:
  assumes "shape t = [B, N, 3]"
  shows "view_infer t [3] = Inr (t\<lparr>shape := [B * N, 3]\<rparr>)"
  using assms by (simp add: view_infer_def numel_def)

lemma global_feature_data:
  assumes len: "length (data t) = B * N * 3" and sh: "shape t = [B, N, 3]"
    and pf: "\<And>x. length x = 3 \<Longrightarrow> length (pf x) = fd"
  shows "tab2 B fd (\<lambda>i k. max_list (map (\<lambda>j.
            concat (map pf (rows (B * N) 3 (data t))) ! ((i * N + j) * fd + k)) [0..<N])) =
         concat (map (\<lambda>b. global_max fd (map pf (cloud t b))) [0..<B])"
  unfolding tab2_def
proof (rule arg_cong[where f = concat], rule map_cong[OF refl], rule sym)
  fix i assume "i \<in> set [0..<B]"
  then have i: "i < B" by simp
  have all: "list_all (\<lambda>x. length x = fd) (map pf (rows (B * N) 3 (data t)))"
    using len by (auto simp: list_all_iff rows_def intro!: pf)
  have cl: "cloud t i = map (\<lambda>j. rows (B * N) 3 (data t) ! (i * N + j)) [0..<N]"
    using sh i by (simp add: cloud_def rows_def index2_less)
  show "global_max fd (map pf (cloud t i)) =
        map (\<lambda>k. max_list (map (\<lambda>j.
            concat (map pf (rows (B * N) 3 (data t))) ! ((i * N + j) * fd + k)) [0..<N])) [0..<fd]"
    unfolding global_max_def
  proof (rule map_cong[OF refl])
    fix k assume "k \<in> set [0..<fd]"
    then have k: "k < fd" by simp
    have "map (\<lambda>f. f ! k) (map pf (cloud t i)) =
          map (\<lambda>j. concat (map pf (rows (B * N) 3 (data t))) ! ((i * N + j) * fd + k)) [0..<N]"
      using i k by (simp add: cl nth_concat_uniform[OF all] index2_less comp_def)
    then show "max_list (map (\<lambda>f. f ! k) (map pf (cloud t i))) =
          max_list (map (\<lambda>j. concat (map pf (rows (B * N) 3 (data t))) ! ((i * N + j) * fd + k)) [0..<N])"
      by simp
  qed
qed

lemma SimplePCN_global_feature_eq:
  assumes v: "valid_SimplePCN self" and wf: "wf_tensor t" and sh: "shape t = [B, N, 3]"
    and N: "0 < N" and fd: "0 < feature_dim self"
  shows "SimplePCN_global_feature self t =
         Inr \<lparr>shape = [B, feature_dim self],
              data = concat (map (\<lambda>b. global_max (feature_dim self)
                   (map (point_forward (encoder self)) (cloud t b))) [0..<B])\<rparr>"
proof -
  let ?fd = "feature_dim self"
  let ?pf = "point_forward (encoder self)"
  let ?xs = "rows (B * N) 3 (data t)"
  let ?g = "map (\<lambda>b. global_max ?fd (map ?pf (cloud t b))) [0..<B]"
  from v fd have ke: "chain (map kind_of (encoder self)) 3 = Some ?fd"
    and re: "list_all rowwise_kind (map kind_of (encoder self))"
    and we: "list_all wf_layer (encoder self)"
    by (simp_all add: valid_SimplePCN_def chain_SimplePCN_encoder rowwise_SimplePCN)
  have len: "length (data t) = B * N * 3"
    using wf sh by (simp add: wf_tensor_def)
  have x: "t\<lparr>shape := [B * N, 3]\<rparr> = \<lparr>shape = [B * N, 3], data = concat ?xs\<rparr>"
    using len by (simp add: concat_rows)
  have xs3: "list_all (\<lambda>x. length x = 3) ?xs"
    using len by (auto simp: list_all_iff rows_def)
  have enc: "Sequential_forward (encoder self) (t\<lparr>shape := [B * N, 3]\<rparr>) =
        Inr \<lparr>shape = [B * N, ?fd], data = concat (map ?pf ?xs)\<rparr>"
    unfolding x using we ke re xs3 by (intro Sequential_forward_rows) simp_all
  have pflen: "\<And>x. length x = 3 \<Longrightarrow> length (?pf x) = ?fd"
    using we ke by (rule length_point_forward)
  have vw: "view \<lparr>shape = [B * N, ?fd], data = concat (map ?pf ?xs)\<rparr> [B, N, ?fd] =
        Inr \<lparr>shape = [B, N, ?fd], data = concat (map ?pf ?xs)\<rparr>"
    by (simp add: view_def numel_def)
  have mx: "torch_max \<lparr>shape = [B, N, ?fd], data = concat (map ?pf ?xs)\<rparr> 1 False =
        Inr \<lparr>shape = [B, ?fd], data = concat ?g\<rparr>"
    using N global_feature_data[OF len sh pflen]
    by (simp add: torch_max_def Let_def)
  show ?thesis
    by (simp add: SimplePCN_global_feature_def sh view_infer_points[OF sh] enc vw
        mx[unfolded One_nat_def])
qed

lemma SimplePCN_decoder_eq:
  assumes v: "valid_SimplePCN self"
    and glen: "list_all (\<lambda>x. length x = feature_dim self) g" and B: "length g = B"
  shows "Sequential_forward (decoder self) \<lparr>shape = [B, feature_dim self], data = concat g\<rparr> =
         Inr \<lparr>shape = [B, output_points self * 3],
              data = concat (map (point_forward (decoder self)) g)\<rparr>"
proof -
  from v have kd: "chain (map kind_of (decoder self)) (feature_dim self) =
        Some (output_points self * 3)"
    and rd: "list_all rowwise_kind (map kind_of (decoder self))"
    and wd: "list_all wf_layer (decoder self)"
    by (simp_all add: valid_SimplePCN_def chain_SimplePCN_decoder rowwise_SimplePCN)
  show ?thesis
    using wd kd rd B glen by (rule Sequential_forward_rows)
qed

lemma list_all_global_max:
  "list_all (\<lambda>x. length x = fd) (map (\<lambda>b. global_max fd (h b)) bs)"
  by (simp add: list_all_iff global_max_def)

lemma view_points:
  "view \<lparr>shape = [B, P * 3], data = d\<rparr> [B, P, 3] = Inr \<lparr>shape = [B, P, 3], data = d\<rparr>"
  by (simp add: view_def numel_def)

lemma SimplePCN_forward_eq:
  assumes v: "valid_SimplePCN self" and wf: "wf_tensor t" and sh: "shape t = [B, N, 3]"
    and N: "0 < N" and fd: "0 < feature_dim self"
  shows "SimplePCN_forward self t =
         Inr \<lparr>shape = [B, output_points self, 3],
              data = concat (map (\<lambda>b. point_forward (decoder self)
                (global_max (feature_dim self)
                   (map (point_forward (encoder self)) (cloud t b)))) [0..<B])\<rparr>"
proof -
  let ?g = "map (\<lambda>b. global_max (feature_dim self)
                   (map (point_forward (encoder self)) (cloud t b))) [0..<B]"
  have dec: "Sequential_forward (decoder self)
        \<lparr>shape = [B, feature_dim self], data = concat ?g\<rparr> =
        Inr \<lparr>shape = [B, output_points self * 3],
             data = concat (map (point_forward (decoder self)) ?g)\<rparr>"
    using v list_all_global_max by (rule SimplePCN_decoder_eq) simp
  show ?thesis
    by (simp add: SimplePCN_forward_def SimplePCN_global_feature_eq[OF v wf sh N fd] dec
        view_points sh comp_def)
qed

section \<open>The forward pass of PointCloudCompletionNet\<close>

lemma tab2_cong:
  "(\<And>i j. i < m \<Longrightarrow> j < n \<Longrightarrow> f i j = g i j) \<Longrightarrow> tab2 m n f = tab2 m n g"
  unfolding tab2_def by (intro arg_cong[where f = concat] map_cong refl) simp

lemma map_tab2: "map h (tab2 m n f) = tab2 m n (\<lambda>i j. h (f i j))"
  by (simp add: tab2_def map_concat comp_def)

lemma concat_tab2_singleton: "concat (tab2 m n (\<lambda>i j. [f i j])) = tab2 m n f"
  by (induction m) (simp_all add: tab2_Suc, simp add: tab2_def)

lemma nth_cols_data:
  assumes "i < B" "ch < C" "j < N"
  shows "concat (map (\<lambda>i. tab2 C N (g i)) [0..<B]) ! ((i * C + ch) * N + j) = g i ch j"
proof -
  have all: "list_all (\<lambda>x. length x = C * N) (map (\<lambda>i. tab2 C N (g i)) [0..<B])"
    by (simp add: list_all_iff)
  have idx: "(i * C + ch) * N + j = i * (C * N) + (ch * N + j)"
    by (simp add: algebra_simps)
  have "ch * N + j < C * N" using assms by (intro index2_less)
  then show ?thesis
    unfolding idx using assms
    by (simp add: nth_concat_uniform[OF all] nth_tab2)
qed

lemma nth_linear_row:
  "oc < length W \<Longrightarrow> oc < length b \<Longrightarrow> linear_row W b x ! oc = dot (W ! oc) x + b ! oc"
  by (simp add: linear_row_def)

lemma nth_bn_row:
  "ch < length x \<Longrightarrow> bn_row g b m v e x ! ch = bn_channel g b m v e ch (x ! ch)"
  by (simp add: bn_row_def)

lemma layer_forward_cols:
  assumes wf: "wf_layer l" and k: "kind_out (kind_of l) c = Some c'"
    and cw: "channelwise_kind (kind_of l)" and N: "0 < N"
    and len: "\<And>i j. i < B \<Longrightarrow> j < N \<Longrightarrow> length (f i j) = c"
  shows "layer_forward l (cols B c N f) = Inr (cols B c' N (\<lambda>i j. layer_point l (f i j)))"
proof (cases l)
  case (Linear n_in n_out W b)
  with cw show ?thesis by simp
next
  case (BatchNorm1d nf g b m v e)
  have "\<And>i. i < B \<Longrightarrow>
      tab2 c N (\<lambda>ch j. bn_channel g b m v e ch
        (concat (map (\<lambda>i. tab2 c N (\<lambda>ch j. f i j ! ch)) [0..<B]) ! ((i * c + ch) * N + j))) =
      tab2 c N (\<lambda>ch j. bn_row g b m v e (f i j) ! ch)"
    by (rule tab2_cong) (simp add: nth_cols_data nth_bn_row len)
  then show ?thesis using BatchNorm1d k cw
    by (auto simp: cols_def split: if_splits intro!: arg_cong[where f = concat] map_cong)
next
  case ReLU
  have "\<And>i. i < B \<Longrightarrow> tab2 c N (\<lambda>ch j. relu (f i j ! ch)) = tab2 c N (\<lambda>ch j. map relu (f i j) ! ch)"
    by (rule tab2_cong) (simp add: len)
  then show ?thesis using ReLU k
    by (auto simp: cols_def map_concat map_tab2 comp_def intro!: arg_cong[where f = concat] map_cong)
next
  case (Conv1d inc outc W b)
  have "\<And>i. i < B \<Longrightarrow>
      tab2 outc N (\<lambda>oc j. dot (W ! oc)
        (map (\<lambda>ch. concat (map (\<lambda>i. tab2 c N (\<lambda>ch j. f i j ! ch)) [0..<B]) ! ((i * c + ch) * N + j))
           [0..<c]) + b ! oc) =
      tab2 outc N (\<lambda>oc j. linear_row W b (f i j) ! oc)"
  proof (rule tab2_cong)
    fix i oc j assume a: "i < B" "oc < outc" "j < N"
    have "map (\<lambda>ch. concat (map (\<lambda>i. tab2 c N (\<lambda>ch j. f i j ! ch)) [0..<B]) ! ((i * c + ch) * N + j))
           [0..<c] = map (\<lambda>ch. f i j ! ch) [0..<c]"
      using a by (intro map_cong refl) (simp add: nth_cols_data)
    also have "\<dots> = f i j" using len[OF a(1,3)] by (metis map_nth)
    finally show "dot (W ! oc)
        (map (\<lambda>ch. concat (map (\<lambda>i. tab2 c N (\<lambda>ch j. f i j ! ch)) [0..<B]) ! ((i * c + ch) * N + j))
           [0..<c]) + b ! oc = linear_row W b (f i j) ! oc"
      using a wf Conv1d by (simp add: nth_linear_row)
  qed
  then show ?thesis using Conv1d k N
    by (auto simp: cols_def split: if_splits intro!: arg_cong[where f = concat] map_cong)
qed

lemma Sequential_forward_cols:
  assumes "list_all wf_layer ls" "chain (map kind_of ls) c = Some c'"
    and "list_all channelwise_kind (map kind_of ls)" and "0 < N"
    and "\<And>i j. i < B \<Longrightarrow> j < N \<Longrightarrow> length (f i j) = c"
  shows "Sequential_forward ls (cols B c N f) =
         Inr (cols B c' N (\<lambda>i j. point_forward ls (f i j)))"
  using assms
proof (induction ls arbitrary: c f)
  case Nil
  then show ?case by (simp add: point_forward_def)
next
  case (Cons l ls)
  from Cons.prems(2) obtain c1 where c1: "kind_out (kind_of l) c = Some c1"
    and ch: "chain (map kind_of ls) c1 = Some c'"
    by (auto split: option.splits)
  have fw: "layer_forward l (cols B c N f) = Inr (cols B c1 N (\<lambda>i j. layer_point l (f i j)))"
    using Cons.prems c1 by (intro layer_forward_cols) simp_all
  have "Sequential_forward ls (cols B c1 N (\<lambda>i j. layer_point l (f i j))) =
        Inr (cols B c' N (\<lambda>i j. point_forward ls (layer_point l (f i j))))"
    using Cons.prems c1 ch by (intro Cons.IH) (simp_all add: length_layer_point)
  then show ?case by (simp add: fw point_forward_def)
qed

lemma chain_PointCloudEncoder: "chain (PointCloudEncoder_kinds c fd) c = Some fd"
  by (simp add: PointCloudEncoder_kinds_def)

lemma chain_PointCloudDecoder: "chain (PointCloudDecoder_kinds fd outp) fd = Some (outp * 3)"
  by (simp add: PointCloudDecoder_kinds_def)

lemma kinds_PointCloud:
  "0 < fd \<Longrightarrow> list_all channelwise_kind (PointCloudEncoder_kinds c fd)"
  "list_all rowwise_kind (PointCloudDecoder_kinds fd outp)"
  by (simp_all add: PointCloudEncoder_kinds_def PointCloudDecoder_kinds_def)

lemma length_cloud: "shape t = [B, N, D] \<Longrightarrow> length (cloud t b) = N"
  by (simp add: cloud_def)

lemma nth_cloud:
  assumes "shape t = [B, N, D]" "length (data t) = B * N * D" "i < B" "j < N"
  shows "length (cloud t i ! j) = D" "cc < D \<Longrightarrow> cloud t i ! j ! cc = data t ! ((i * N + j) * D + cc)"
proof -
  have "(i * N + j) * D + D \<le> B * N * D"
    using index2_less[OF assms(3,4)]
    by (metis Suc_leI mult_Suc mult_le_mono1 add.commute)
  then have le: "(i * N + j) * D \<le> length (data t)"
    unfolding assms(2) by (rule add_leD1)
  show "length (cloud t i ! j) = D"
    using assms \<open>(i * N + j) * D + D \<le> B * N * D\<close> by (simp add: cloud_def)
  show "cc < D \<Longrightarrow> cloud t i ! j ! cc = data t ! ((i * N + j) * D + cc)"
    using assms le by (simp add: cloud_def nth_drop)
qed

lemma transpose12_points:
  assumes sh: "shape t = [B, N, 3]" and len: "length (data t) = B * N * 3"
  shows "transpose12 t = Inr (cols B 3 N (\<lambda>i j. cloud t i ! j))"
proof -
  have "\<And>i. i < B \<Longrightarrow>
      tab2 3 N (\<lambda>cc rr. data t ! ((i * N + rr) * 3 + cc)) = tab2 3 N (\<lambda>ch j. cloud t i ! j ! ch)"
    by (rule tab2_cong) (simp add: nth_cloud[OF sh len])
  then show ?thesis
    using sh by (auto simp: transpose12_def cols_def concat_tab2_singleton
        intro!: arg_cong[where f = concat] map_cong)
qed

lemma tab2_flatten: "tab2 (B * F) 1 (\<lambda>i k. h i) = tab2 B F (\<lambda>b ch. h (b * F + ch))"
proof (rule nth_equalityI)
  show "length (tab2 (B * F) 1 (\<lambda>i k. h i)) = length (tab2 B F (\<lambda>b ch. h (b * F + ch)))"
    by simp
next
  fix n assume "n < length (tab2 (B * F) 1 (\<lambda>i k. h i))"
  then have n: "n < B * F" by simp
  then have F: "0 < F" by (cases F) simp_all
  have d: "n div F < B" using n by (simp add: less_mult_imp_div_less)
  have m: "n mod F < F" using F by simp
  have "tab2 (B * F) 1 (\<lambda>i k. h i) ! (n * 1 + 0) = h n"
    using n by (intro nth_tab2) simp_all
  moreover have "tab2 B F (\<lambda>b ch. h (b * F + ch)) ! (n div F * F + n mod F) = h (n div F * F + n mod F)"
    using d m by (rule nth_tab2)
  ultimately show "tab2 (B * F) 1 (\<lambda>i k. h i) ! n = tab2 B F (\<lambda>b ch. h (b * F + ch)) ! n"
    by simp
qed

lemma torch_max_cols:
  assumes N: "0 < N" and sh: "shape t = [B, N, D]"
    and len: "\<And>i j. i < B \<Longrightarrow> j < N \<Longrightarrow> length (pf (cloud t i ! j)) = F"
  shows "torch_max (cols B F N (\<lambda>i j. pf (cloud t i ! j))) 2 True =
         Inr \<lparr>shape = [B, F, 1],
              data = concat (map (\<lambda>b. global_max F (map pf (cloud t b))) [0..<B])\<rparr>"
proof -
  let ?D = "concat (map (\<lambda>i. tab2 F N (\<lambda>ch j. pf (cloud t i ! j) ! ch)) [0..<B])"
  have "tab2 (B * F) 1 (\<lambda>i k. max_list (map (\<lambda>j. ?D ! ((i * N + j) * 1 + k)) [0..<N])) =
        tab2 (B * F) 1 (\<lambda>i k. max_list (map (\<lambda>j. ?D ! (i * N + j)) [0..<N]))"
    by (rule tab2_cong) simp
  also have "\<dots> = tab2 B F (\<lambda>b ch. max_list (map (\<lambda>j. ?D ! ((b * F + ch) * N + j)) [0..<N]))"
    by (rule tab2_flatten)
  also have "\<dots> = tab2 B F (\<lambda>b ch. max_list (map (\<lambda>f. f ! ch) (map pf (cloud t b))))"
  proof (rule tab2_cong)
    fix b ch assume a: "b < B" "ch < F"
    have "map (\<lambda>j. ?D ! ((b * F + ch) * N + j)) [0..<N] = map (\<lambda>j. pf (cloud t b ! j) ! ch) [0..<N]"
      using a by (intro map_cong refl) (simp add: nth_cols_data)
    also have "\<dots> = map (\<lambda>f. f ! ch) (map pf (cloud t b))"
      using length_cloud[OF sh, of b] by (intro nth_equalityI) simp_all
    finally show "max_list (map (\<lambda>j. ?D ! ((b * F + ch) * N + j)) [0..<N]) =
        max_list (map (\<lambda>f. f ! ch) (map pf (cloud t b)))"
      by simp
  qed
  also have "\<dots> = concat (map (\<lambda>b. global_max F (map pf (cloud t b))) [0..<B])"
    by (simp add: tab2_def global_max_def)
  finally show ?thesis using N
    by (simp add: torch_max_def cols_def Let_def numeral_3_eq_3)
qed

lemma PointCloudCompletionNet_forward_eq:
  assumes v: "valid_PointCloudCompletionNet self" and wf: "wf_tensor t"
    and sh: "shape t = [B, N, 3]" and N: "0 < N" and P: "0 < net_output_points self"
  shows "PointCloudCompletionNet_forward self t =
         Inr \<lparr>shape = [B, net_output_points self, 3],
              data = concat (map (\<lambda>b. point_forward (PointCloudDecoder_layers (net_decoder self))
                (global_max 1024
                   (map (point_forward (PointCloudEncoder_layers (net_encoder self))) (cloud t b))))
                [0..<B])\<rparr>"
proof -
  let ?P = "net_output_points self"
  let ?el = "PointCloudEncoder_layers (net_encoder self)"
  let ?dl = "PointCloudDecoder_layers (net_decoder self)"
  let ?pf = "point_forward ?el" and ?pd = "point_forward ?dl"
  let ?g = "map (\<lambda>b. global_max 1024 (map ?pf (cloud t b))) [0..<B]"
  from v have ke: "chain (map kind_of ?el) 3 = Some 1024"
    and kd: "chain (map kind_of ?dl) 1024 = Some (?P * 3)"
    and ce: "list_all channelwise_kind (map kind_of ?el)"
    and rd: "list_all rowwise_kind (map kind_of ?dl)"
    and we: "list_all wf_layer ?el" and wd: "list_all wf_layer ?dl"
    and op: "dec_output_points (net_decoder self) = ?P"
    by (simp_all add: valid_PointCloudCompletionNet_def chain_PointCloudEncoder
        chain_PointCloudDecoder kinds_PointCloud)
  have len: "length (data t) = B * N * 3"
    using wf sh by (simp add: wf_tensor_def)
  have pflen: "\<And>i j. i < B \<Longrightarrow> j < N \<Longrightarrow> length (?pf (cloud t i ! j)) = 1024"
    using we ke by (rule length_point_forward) (simp add: nth_cloud[OF sh len])
  have tr: "transpose12 t = Inr (cols B 3 N (\<lambda>i j. cloud t i ! j))"
    using sh len by (rule transpose12_points)
  have enc: "Sequential_forward ?el (cols B 3 N (\<lambda>i j. cloud t i ! j)) =
        Inr (cols B 1024 N (\<lambda>i j. ?pf (cloud t i ! j)))"
    using we ke ce N by (rule Sequential_forward_cols) (simp add: nth_cloud[OF sh len])
  have mx: "torch_max (cols B 1024 N (\<lambda>i j. ?pf (cloud t i ! j))) 2 True =
        Inr \<lparr>shape = [B, 1024, 1], data = concat ?g\<rparr>"
    using N sh pflen by (rule torch_max_cols)
  have sq: "squeeze_last \<lparr>shape = [B, 1024, 1], data = concat ?g\<rparr> =
        \<lparr>shape = [B, 1024], data = concat ?g\<rparr>"
    by (simp add: squeeze_last_def)
  have glen: "list_all (\<lambda>x. length x = 1024) ?g"
    by (simp add: list_all_iff global_max_def)
  have dec: "Sequential_forward ?dl \<lparr>shape = [B, 1024], data = concat ?g\<rparr> =
        Inr \<lparr>shape = [B, ?P * 3], data = concat (map ?pd ?g)\<rparr>"
    using wd kd rd glen by (intro Sequential_forward_rows) simp_all
  have vw: "\<And>d. view_infer \<lparr>shape = [B, ?P * 3], data = d\<rparr> [?P, 3] =
        Inr \<lparr>shape = [B, ?P, 3], data = d\<rparr>"
    using P by (simp add: view_infer_def numel_def)
  show ?thesis
    by (simp add: PointCloudCompletionNet_forward_def PointCloudEncoder_forward_def
        PointCloudDecoder_forward_def tr enc mx sq[unfolded One_nat_def] dec vw op comp_def)
qed

section \<open>The constructors build valid networks\<close>

lemma list_all_rows:
  "length w = r * c \<Longrightarrow> list_all (\<lambda>x. length x = c) (rows r c w)"
proof -
  assume len: "length w = r * c"
  have "length (take c (drop (i * c) w)) = c" if "i < r" for i
  proof -
    from that have "i * c + c \<le> r * c"
      by (metis Suc_leI mult_Suc mult_le_mono1 add.commute)
    then show ?thesis using len by simp
  qed
  then show ?thesis by (simp add: list_all_iff rows_def)
qed

lemma nn_init_uniform_length [simp]: "length (fst (nn_init_uniform n lo hi g)) = n"
  by (simp add: nn_init_uniform_def)

lemma nn_Linear_kind [simp]: "kind_of (fst (nn_Linear i n g)) = KLinear i n"
  by (simp add: nn_Linear_def split_def Let_def)

lemma nn_Linear_wf [simp]: "wf_layer (fst (nn_Linear i n g))"
  by (simp add: nn_Linear_def split_def Let_def list_all_rows)

lemma nn_Conv1d_kind [simp]: "kind_of (fst (nn_Conv1d i n g)) = KConv1d i n"
  by (simp add: nn_Conv1d_def split_def Let_def)

lemma nn_Conv1d_wf [simp]: "wf_layer (fst (nn_Conv1d i n g))"
  by (simp add: nn_Conv1d_def split_def Let_def list_all_rows)

lemma nn_BatchNorm1d_kind [simp]: "kind_of (nn_BatchNorm1d n) = KBatchNorm1d n"
  by (simp add: nn_BatchNorm1d_def)

lemma nn_BatchNorm1d_wf [simp]: "wf_layer (nn_BatchNorm1d n)"
  by (simp add: nn_BatchNorm1d_def)

lemma SimplePCN_init_fields [simp]:
  "input_points (fst (SimplePCN_init ip outp fd g)) = ip"
  "output_points (fst (SimplePCN_init ip outp fd g)) = outp"
  "feature_dim (fst (SimplePCN_init ip outp fd g)) = fd"
  by (simp_all add: SimplePCN_init_def split_def Let_def)

lemma valid_SimplePCN_init: "valid_SimplePCN (fst (SimplePCN_init ip outp fd g))"
  by (simp add: valid_SimplePCN_def SimplePCN_init_def split_def Let_def
      SimplePCN_encoder_kinds_def SimplePCN_decoder_kinds_def)

lemma valid_create_model:
  "valid_SimplePCN (fst (create_model g))" "output_points (fst (create_model g)) = 2048"
  "feature_dim (fst (create_model g)) = 512"
  by (simp_all add: create_model_def valid_SimplePCN_init)

lemma init_weights_kind [simp]: "kind_of (fst (init_weights l g)) = kind_of l"
  by (cases l) (simp_all add: split_def Let_def)

lemma init_weights_wf [simp]: "wf_layer l \<Longrightarrow> wf_layer (fst (init_weights l g))"
  by (cases l) (simp_all add: split_def Let_def list_all_rows)

lemma valid_PointCloudCompletionNet_init:
  "valid_PointCloudCompletionNet (fst (PointCloudCompletionNet_init ip outp g))"
  "net_output_points (fst (PointCloudCompletionNet_init ip outp g)) = outp"
  by (simp_all add: valid_PointCloudCompletionNet_def PointCloudCompletionNet_init_def
      PointCloudEncoder_init_def PointCloudDecoder_init_def split_def Let_def
      PointCloudEncoder_layers_def PointCloudDecoder_layers_def
      PointCloudEncoder_kinds_def PointCloudDecoder_kinds_def)

lemma valid_apply_init_weights:
  assumes "valid_PointCloudCompletionNet m"
  shows "valid_PointCloudCompletionNet (fst (apply_init_weights m g))"
    and "net_output_points (fst (apply_init_weights m g)) = net_output_points m"
  using assms
  by (simp_all add: valid_PointCloudCompletionNet_def apply_init_weights_def split_def Let_def
      PointCloudEncoder_layers_def PointCloudDecoder_layers_def)

lemma valid_create_pcn_model:
  "valid_PointCloudCompletionNet (fst (create_pcn_model g))"
  "net_output_points (fst (create_pcn_model g)) = 2048"
  by (simp_all add: create_pcn_model_def split_def Let_def valid_apply_init_weights
      valid_PointCloudCompletionNet_init)

lemma wf_completed:
  assumes "list_all wf_layer ls" "chain (map kind_of ls) fd = Some (P * 3)"
    and "\<And>b. b < B \<Longrightarrow> length (h b) = fd"
  shows "wf_tensor \<lparr>shape = [B, P, 3],
           data = concat (map (\<lambda>b. point_forward ls (h b)) [0..<B])\<rparr>"
proof -
  have "list_all (\<lambda>x. length x = P * 3) (map (\<lambda>b. point_forward ls (h b)) [0..<B])"
    using assms by (simp add: list_all_iff length_point_forward)
  from length_concat_uniform[OF this] show ?thesis
    by (simp add: wf_tensor_def)
qed

lemma length_global_max [simp]: "length (global_max fd fs) = fd"
  by (simp add: global_max_def)

section \<open>Pooling\<close>

lemma cloud_nonempty: "shape t = [B, N, D] \<Longrightarrow> 0 < N \<Longrightarrow> cloud t b \<noteq> []"
  by (simp add: cloud_def)

lemma global_max_set:
  assumes "xs \<noteq> []" "ys \<noteq> []" "set xs = set ys"
  shows "global_max fd (map pf xs) = global_max fd (map pf ys)"
proof -
  have "max_list (map (\<lambda>f. f ! k) (map pf xs)) = max_list (map (\<lambda>f. f ! k) (map pf ys))" for k
    using assms by (simp add: max_list_Max image_image)
  then show ?thesis by (simp add: global_max_def)
qed

lemma upt_3: "[0..<3] = [0, 1, 2]"
  by (simp add: upt_rec)

lemma cloud_two_points: "cloud two_points 0 = [[0, 0, 0], [1, 2, 3]]"
  by (simp add: cloud_def two_points_def upt_rec)

lemma cloud_three_points: "cloud three_points 0 = [[1, 2, 3], [0, 0, 0], [1, 2, 3]]"
  by (simp add: cloud_def three_points_def upt_rec)

lemma PointCloudEncoder_forward_eq:
  assumes v: "valid_PointCloudCompletionNet self" and wf: "wf_tensor t"
    and sh: "shape t = [B, N, 3]" and N: "0 < N"
  shows "\<exists>xt. transpose12 t = Inr xt \<and>
           PointCloudEncoder_forward (net_encoder self) xt =
           Inr \<lparr>shape = [B, 1024, 1],
                data = concat (map (\<lambda>b. global_max 1024
                   (map (point_forward (PointCloudEncoder_layers (net_encoder self))) (cloud t b)))
                [0..<B])\<rparr>"
proof -
  let ?el = "PointCloudEncoder_layers (net_encoder self)"
  let ?pf = "point_forward ?el"
  let ?g = "map (\<lambda>b. global_max 1024 (map ?pf (cloud t b))) [0..<B]"
  from v have ke: "chain (map kind_of ?el) 3 = Some 1024"
    and ce: "list_all channelwise_kind (map kind_of ?el)"
    and we: "list_all wf_layer ?el"
    by (simp_all add: valid_PointCloudCompletionNet_def chain_PointCloudEncoder kinds_PointCloud)
  have len: "length (data t) = B * N * 3"
    using wf sh by (simp add: wf_tensor_def)
  have pflen: "\<And>i j. i < B \<Longrightarrow> j < N \<Longrightarrow> length (?pf (cloud t i ! j)) = 1024"
    using we ke by (rule length_point_forward) (simp add: nth_cloud[OF sh len])
  have tr: "transpose12 t = Inr (cols B 3 N (\<lambda>i j. cloud t i ! j))"
    using sh len by (rule transpose12_points)
  have enc: "Sequential_forward ?el (cols B 3 N (\<lambda>i j. cloud t i ! j)) =
        Inr (cols B 1024 N (\<lambda>i j. ?pf (cloud t i ! j)))"
    using we ke ce N by (rule Sequential_forward_cols) (simp add: nth_cloud[OF sh len])
  have mx: "torch_max (cols B 1024 N (\<lambda>i j. ?pf (cloud t i ! j))) 2 True =
        Inr \<lparr>shape = [B, 1024, 1], data = concat ?g\<rparr>"
    using N sh pflen by (rule torch_max_cols)
  show ?thesis
    by (simp add: PointCloudEncoder_forward_def tr enc mx)
qed

lemma point_forward_snoc: "point_forward (ls @ [l]) x = layer_point l (point_forward ls x)"
  by (simp add: point_forward_def)

lemma relu_nonneg: "0 \<le> relu z"
  by (simp add: relu_def)

lemma point_forward_last_ReLU:
  assumes "ls \<noteq> []" "kind_of (last ls) = KReLU"
  shows "\<forall>x\<in>set (point_forward ls p). 0 \<le> x"
proof -
  have "last ls = ReLU" using assms(2) by (cases "last ls") simp_all
  with assms(1) have "ls = butlast ls @ [ReLU]" by (metis append_butlast_last_id)
  then have "point_forward ls p = map relu (point_forward (butlast ls) p)"
    by (metis point_forward_snoc layer_point.simps(3))
  then show ?thesis by (simp add: relu_nonneg)
qed

lemma global_max_nonneg:
  assumes "fs \<noteq> []" "\<forall>f\<in>set fs. length f = fd \<and> (\<forall>x\<in>set f. 0 \<le> x)"
  shows "\<forall>x\<in>set (global_max fd fs). 0 \<le> (x::real)"
proof -
  have "0 \<le> max_list (map (\<lambda>f. f ! k) fs)" if "k < fd" for k
  proof -
    from assms(1) obtain f where f: "f \<in> set fs" by (cases fs) auto
    with assms(2) that have "0 \<le> f ! k" by simp
    also have "f ! k \<le> Max (set (map (\<lambda>f. f ! k) fs))"
      using f by (intro Max_ge) simp_all
    finally show ?thesis using assms(1) by (simp add: max_list_Max)
  qed
  then show ?thesis by (auto simp: global_max_def)
qed

lemma concat_global_max_nonneg:
  assumes "\<And>b. b < B \<Longrightarrow> cs b \<noteq> []"
    and "\<And>b p. b < B \<Longrightarrow> p \<in> set (cs b) \<Longrightarrow>
           length (pf p) = fd \<and> (\<forall>x\<in>set (pf p). 0 \<le> x)"
  shows "\<forall>x\<in>set (concat (map (\<lambda>b. global_max fd (map pf (cs b))) [0..<B])). 0 \<le> x"
proof -
  have "\<forall>x\<in>set (global_max fd (map pf (cs b))). 0 \<le> x" if "b < B" for b
    using assms(1)[OF that] assms(2)[OF that] by (intro global_max_nonneg) auto
  then show ?thesis by auto
qed

lemma length_cloud_point:
  assumes "shape t = [B, N, D]" "wf_tensor t" "b < B" "p \<in> set (cloud t b)"
  shows "length p = D"
proof -
  from assms(4) obtain j where "j < length (cloud t b)" "p = cloud t b ! j"
    by (auto simp: in_set_conv_nth)
  moreover have "length (data t) = B * N * D" using assms(1,2) by (simp add: wf_tensor_def)
  ultimately show ?thesis
    using nth_cloud(1)[OF assms(1) _ assms(3)] length_cloud[OF assms(1)] by simp
qed

section \<open>Reshaping and normalization\<close>

lemma offset_3: "offset [B, P, 3] [b, i, k] = (b * P + i) * 3 + k"
  by (simp add: offset_def)

lemma offset_2: "offset [B, Q] [b, j] = b * Q + j"
  by (simp add: offset_def)

lemma item_view_points:
  "item \<lparr>shape = [B, P, 3], data = d\<rparr> [b, i, k] =
   item \<lparr>shape = [B, P * 3], data = d\<rparr> [b, 3 * i + k]"
  by (simp add: item_def offset_3 offset_2 algebra_simps)

lemma PointCloudDecoder_flat_eq:
  assumes v: "valid_PointCloudCompletionNet self"
    and glen: "list_all (\<lambda>x. length x = 1024) g" and B: "length g = B"
  shows "Sequential_forward (PointCloudDecoder_layers (net_decoder self))
           (squeeze_last \<lparr>shape = [B, 1024, 1], data = concat g\<rparr>) =
         Inr \<lparr>shape = [B, net_output_points self * 3],
              data = concat (map (point_forward (PointCloudDecoder_layers (net_decoder self))) g)\<rparr>"
proof -
  let ?dl = "PointCloudDecoder_layers (net_decoder self)"
  from v have kd: "chain (map kind_of ?dl) 1024 = Some (net_output_points self * 3)"
    and rd: "list_all rowwise_kind (map kind_of ?dl)"
    and wd: "list_all wf_layer ?dl"
    by (simp_all add: valid_PointCloudCompletionNet_def chain_PointCloudDecoder kinds_PointCloud)
  have sq: "squeeze_last \<lparr>shape = [B, 1024, 1], data = concat g\<rparr> =
        \<lparr>shape = [B, 1024], data = concat g\<rparr>"
    by (simp add: squeeze_last_def)
  show ?thesis
    unfolding sq using wd kd rd B glen by (rule Sequential_forward_rows)
qed

lemma offset_3_general: "offset [A, B, C] [a, b, c] = (a * B + b) * C + c"
  by (simp add: offset_def)

lemma bn_channel_formula:
  "bn_channel g b m v e c y = g ! c * (y - m ! c) / sqrt (v ! c + e) + b ! c"
  by (simp add: bn_channel_def)

section \<open>The decoder as specified\<close>

lemma kind_of_ReLU: "kind_of l = KReLU \<Longrightarrow> l = ReLU"
  by (cases l) simp_all

lemma layer_point_affine: "kind_of l = KLinear i n \<Longrightarrow> layer_point l x = spec_affine l x"
  by (cases l) (simp_all add: spec_affine_def)

lemma layer_point_normalize:
  "kind_of l = KBatchNorm1d k \<Longrightarrow> layer_point l x = spec_normalize l x"
  by (cases l) (simp_all add: bn_row_def bn_channel_def)

lemma map_relu_clamp: "map relu x = spec_clamp x"
  by (simp add: spec_clamp_def relu_def)

lemma decoder_stack_spec:
  assumes "kind_of l1 = KLinear i1 o1" "kind_of n1 = KBatchNorm1d k1"
    and "kind_of l2 = KLinear i2 o2" "kind_of n2 = KBatchNorm1d k2"
    and "kind_of l3 = KLinear i3 o3"
  shows "point_forward [l1, n1, ReLU, l2, n2, ReLU, l3] x =
         spec_decoder [(l1, n1), (l2, n2)] l3 x"
  using assms
  by (simp add: point_forward_def spec_decoder_def layer_point_affine layer_point_normalize
      map_relu_clamp)

lemma SimplePCN_decoder_layers:
  assumes "valid_SimplePCN m"
  shows "\<exists>l1 n1 l2 n2 l3.
           decoder m = [l1, n1, ReLU, l2, n2, ReLU, l3] \<and>
           kind_of l1 = KLinear (feature_dim m) 1024 \<and> kind_of n1 = KBatchNorm1d 1024 \<and>
           kind_of l2 = KLinear 1024 2048 \<and> kind_of n2 = KBatchNorm1d 2048 \<and>
           kind_of l3 = KLinear 2048 (output_points m * 3)"
proof -
  from assms have "map kind_of (decoder m) =
      [KLinear (feature_dim m) 1024, KBatchNorm1d 1024, KReLU,
       KLinear 1024 2048, KBatchNorm1d 2048, KReLU,
       KLinear 2048 (output_points m * 3)]"
    by (simp add: valid_SimplePCN_def SimplePCN_decoder_kinds_def)
  then obtain l1 n1 r1 l2 n2 r2 l3 where
    "decoder m = [l1, n1, r1, l2, n2, r2, l3]"
    "kind_of l1 = KLinear (feature_dim m) 1024" "kind_of n1 = KBatchNorm1d 1024"
    "kind_of r1 = KReLU" "kind_of l2 = KLinear 1024 2048" "kind_of n2 = KBatchNorm1d 2048"
    "kind_of r2 = KReLU" "kind_of l3 = KLinear 2048 (output_points m * 3)"
    by (auto simp: map_eq_Cons_conv)
  then show ?thesis by (auto dest!: kind_of_ReLU)
qed

section \<open>Inputs of the wrong shape\<close>

lemma SimplePCN_encoder_rows:
  assumes v: "valid_SimplePCN self" and len: "length d = M * 3"
    and fd: "0 < feature_dim self"
  shows "Sequential_forward (encoder self) \<lparr>shape = [M, 3], data = d\<rparr> =
         Inr \<lparr>shape = [M, feature_dim self],
              data = concat (map (point_forward (encoder self)) (rows M 3 d))\<rparr>"
proof -
  from v fd have ke: "chain (map kind_of (encoder self)) 3 = Some (feature_dim self)"
    and re: "list_all rowwise_kind (map kind_of (encoder self))"
    and we: "list_all wf_layer (encoder self)"
    by (simp_all add: valid_SimplePCN_def chain_SimplePCN_encoder rowwise_SimplePCN)
  have "Sequential_forward (encoder self) \<lparr>shape = [M, 3], data = concat (rows M 3 d)\<rparr> =
         Inr \<lparr>shape = [M, feature_dim self],
              data = concat (map (point_forward (encoder self)) (rows M 3 d))\<rparr>"
    using we ke re by (rule Sequential_forward_rows) (simp_all add: list_all_rows len)
  then show ?thesis by (simp add: concat_rows len)
qed

lemma SimplePCN_forward_empty:
  assumes v: "valid_SimplePCN self" and wf: "wf_tensor t" and sh: "shape t = [B, 0, D]"
    and fd: "0 < feature_dim self"
  shows "SimplePCN_forward self t = Inl IndexError"
proof -
  have d: "data t = []" using wf sh by (simp add: wf_tensor_def)
  have x: "view_infer t [3] = Inr \<lparr>shape = [0, 3], data = []\<rparr>"
    using sh d by (simp add: view_infer_def numel_def)
  have enc: "Sequential_forward (encoder self) \<lparr>shape = [0, 3], data = []\<rparr> =
        Inr \<lparr>shape = [0, feature_dim self], data = []\<rparr>"
    using SimplePCN_encoder_rows[OF v _ fd, of "[]" 0] by (simp add: rows_def)
  have "SimplePCN_global_feature self t = Inl IndexError"
    by (simp add: SimplePCN_global_feature_def sh x enc view_def numel_def torch_max_def)
  then show ?thesis by (simp add: SimplePCN_forward_def)
qed

lemma SimplePCN_forward_wrong_dim:
  assumes v: "valid_SimplePCN self" and fd: "0 < feature_dim self"
    and wf: "wf_tensor t" and sh: "shape t = [B, N, D]"
    and B: "0 < B" and N: "0 < N" and D: "D \<noteq> 3"
  shows "SimplePCN_forward self t = Inl RuntimeError"
proof (cases "(B * N * D) mod 3 = 0")
  case False
  have n: "numel t = B * N * D" using sh by (simp add: numel_def)
  from False have "view_infer t [3] = Inl RuntimeError"
    by (simp add: view_infer_def n)
  then have "SimplePCN_global_feature self t = Inl RuntimeError"
    by (simp add: SimplePCN_global_feature_def sh)
  then show ?thesis by (simp add: SimplePCN_forward_def)
next
  case True
  have n: "numel t = B * N * D" using sh by (simp add: numel_def)
  define M where "M = B * N * D div 3"
  have M: "M * 3 = B * N * D"
    unfolding M_def using True by (metis div_mult_mod_eq add.right_neutral)
  have len: "length (data t) = M * 3" using wf sh M by (simp add: wf_tensor_def)
  have x: "view_infer t [3] = Inr \<lparr>shape = [M, 3], data = data t\<rparr>"
    using True by (simp add: view_infer_def n M_def)
  note enc = SimplePCN_encoder_rows[OF v len fd]
  have "M \<noteq> B * N"
  proof
    assume "M = B * N"
    with M have "B * N * 3 = B * N * D" by simp
    with B N D show False by simp
  qed
  then have "B * N * feature_dim self \<noteq> M * feature_dim self"
    using fd by simp
  then have "SimplePCN_global_feature self t = Inl RuntimeError"
    by (simp add: SimplePCN_global_feature_def sh x enc view_def numel_def)
  then show ?thesis by (simp add: SimplePCN_forward_def)
qed

lemma PointCloudCompletionNet_forward_bad_shape:
  assumes v: "valid_PointCloudCompletionNet self" and sh: "shape t = [B, N, D]"
    and bad: "N = 0 \<or> D \<noteq> 3"
  shows "PointCloudCompletionNet_forward self t = Inl RuntimeError"
proof -
  from v have "kind_of (conv1 (net_encoder self)) = KConv1d 3 64"
    by (simp add: valid_PointCloudCompletionNet_def PointCloudEncoder_layers_def
        PointCloudEncoder_kinds_def)
  then obtain W b where c: "conv1 (net_encoder self) = Conv1d 3 64 W b"
    by (cases "conv1 (net_encoder self)") simp_all
  obtain xt where xt: "transpose12 t = Inr xt" "shape xt = [B, D, N]"
    using sh by (simp add: transpose12_def)
  have "layer_forward (conv1 (net_encoder self)) xt = Inl RuntimeError"
    using bad xt(2) by (auto simp: c)
  then have "PointCloudEncoder_forward (net_encoder self) xt = Inl RuntimeError"
    by (simp add: PointCloudEncoder_forward_def PointCloudEncoder_layers_def)
  then show ?thesis
    by (simp add: PointCloudCompletionNet_forward_def xt(1))
qed

section \<open>Declared sizes\<close>






section \<open>Parameter initialisation\<close>

lemma advance_0: "advance g 0 = g"
  by (simp add: advance_def)

lemma nn_init_uniform_advance:
  "nn_init_uniform n (- a) a (advance g k) = (scaled_draws g k a n, advance g (k + n))"
  by (simp add: nn_init_uniform_def advance_def scaled_draws_def add.commute add.left_commute)

lemma nn_Linear_advance:
  "nn_Linear n_in n_out (advance g k) =
     (Linear n_in n_out (default_rows g k n_in n_out)
        (default_bias g (k + n_out * n_in) n_in n_out),
      advance g (k + n_out * n_in + n_out))"
  by (simp add: nn_Linear_def nn_init_uniform_advance default_rows_def default_bias_def)

lemma nn_Conv1d_advance:
  "nn_Conv1d n_in n_out (advance g k) =
     (Conv1d n_in n_out (default_rows g k n_in n_out)
        (default_bias g (k + n_out * n_in) n_in n_out),
      advance g (k + n_out * n_in + n_out))"
  by (simp add: nn_Conv1d_def nn_init_uniform_advance default_rows_def default_bias_def)

lemma init_weights_advance:
  "init_weights (Linear n_in n_out W b) (advance g k) =
     (Linear n_in n_out (xavier_rows g k n_in n_out) (replicate n_out 0),
      advance g (k + n_out * n_in))"
  "init_weights (Conv1d n_in n_out W b) (advance g k) =
     (Conv1d n_in n_out (xavier_rows g k n_in n_out) (replicate n_out 0),
      advance g (k + n_out * n_in))"
  by (simp_all add: nn_init_uniform_advance xavier_rows_def)

lemma SimplePCN_init_advance:
  "\<exists>k1 k2 k3 k4 k5 k6 c1 c2 c3 c4 c5 c6.
     fst (SimplePCN_init ip outp fd g) =
       \<lparr>input_points = ip, output_points = outp, feature_dim = fd,
        encoder = [Linear 3 128 (default_rows g k1 3 128) (default_bias g c1 3 128),
                   nn_BatchNorm1d 128, ReLU,
                   Linear 128 256 (default_rows g k2 128 256) (default_bias g c2 128 256),
                   nn_BatchNorm1d 256, ReLU,
                   Linear 256 fd (default_rows g k3 256 fd) (default_bias g c3 256 fd),
                   nn_BatchNorm1d fd, ReLU],
        decoder = [Linear fd 1024 (default_rows g k4 fd 1024) (default_bias g c4 fd 1024),
                   nn_BatchNorm1d 1024, ReLU,
                   Linear 1024 2048 (default_rows g k5 1024 2048) (default_bias g c5 1024 2048),
                   nn_BatchNorm1d 2048, ReLU,
                   Linear 2048 (outp * 3) (default_rows g k6 2048 (outp * 3))
                     (default_bias g c6 2048 (outp * 3))]\<rparr>"
proof -
  define k2 k3 k4 k5 k6 where "k2 = 0 + 128 * 3 + (128::nat)" and "k3 = k2 + 256 * 128 + 256"
    and "k4 = k3 + fd * 256 + fd" and "k5 = k4 + 1024 * fd + 1024"
    and "k6 = k5 + 2048 * 1024 + 2048"
  have "fst (SimplePCN_init ip outp fd (advance g 0)) =
       \<lparr>input_points = ip, output_points = outp, feature_dim = fd,
        encoder = [Linear 3 128 (default_rows g 0 3 128) (default_bias g (0 + 128 * 3) 3 128),
                   nn_BatchNorm1d 128, ReLU,
                   Linear 128 256 (default_rows g k2 128 256)
                     (default_bias g (k2 + 256 * 128) 128 256),
                   nn_BatchNorm1d 256, ReLU,
                   Linear 256 fd (default_rows g k3 256 fd) (default_bias g (k3 + fd * 256) 256 fd),
                   nn_BatchNorm1d fd, ReLU],
        decoder = [Linear fd 1024 (default_rows g k4 fd 1024)
                     (default_bias g (k4 + 1024 * fd) fd 1024),
                   nn_BatchNorm1d 1024, ReLU,
                   Linear 1024 2048 (default_rows g k5 1024 2048)
                     (default_bias g (k5 + 2048 * 1024) 1024 2048),
                   nn_BatchNorm1d 2048, ReLU,
                   Linear 2048 (outp * 3) (default_rows g k6 2048 (outp * 3))
                     (default_bias g (k6 + outp * 3 * 2048) 2048 (outp * 3))]\<rparr>"
    unfolding k2_def k3_def k4_def k5_def k6_def
    by (simp add: SimplePCN_init_def nn_Linear_advance Let_def)
  then show ?thesis unfolding advance_0 by blast
qed

lemma create_pcn_model_advance:
  "\<exists>k1 k2 k3 k4 k5 k6.
     conv1 (net_encoder (fst (create_pcn_model g))) =
       Conv1d 3 64 (xavier_rows g k1 3 64) (replicate 64 0) \<and>
     conv2 (net_encoder (fst (create_pcn_model g))) =
       Conv1d 64 128 (xavier_rows g k2 64 128) (replicate 128 0) \<and>
     conv3 (net_encoder (fst (create_pcn_model g))) =
       Conv1d 128 1024 (xavier_rows g k3 128 1024) (replicate 1024 0) \<and>
     fc1 (net_decoder (fst (create_pcn_model g))) =
       Linear 1024 2048 (xavier_rows g k4 1024 2048) (replicate 2048 0) \<and>
     fc2 (net_decoder (fst (create_pcn_model g))) =
       Linear 2048 4096 (xavier_rows g k5 2048 4096) (replicate 4096 0) \<and>
     fc3 (net_decoder (fst (create_pcn_model g))) =
       Linear 4096 (2048 * 3) (xavier_rows g k6 4096 (2048 * 3)) (replicate (2048 * 3) 0)"
proof -
  define k1 k2 k3 k4 k5 k6 where
    "k1 = 0 + 64 * 3 + 64 + 128 * 64 + 128 + 1024 * 128 + 1024
            + 2048 * 1024 + 2048 + 4096 * 2048 + 4096 + 2048 * 3 * 4096 + 2048 * (3::nat)"
    and "k2 = k1 + 64 * 3" and "k3 = k2 + 128 * 64" and "k4 = k3 + 1024 * 128"
    and "k5 = k4 + 2048 * 1024" and "k6 = k5 + 4096 * 2048"
  let ?n = "fst (create_pcn_model (advance g 0))"
  have "conv1 (net_encoder ?n) = Conv1d 3 64 (xavier_rows g k1 3 64) (replicate 64 0) \<and>
     conv2 (net_encoder ?n) = Conv1d 64 128 (xavier_rows g k2 64 128) (replicate 128 0) \<and>
     conv3 (net_encoder ?n) = Conv1d 128 1024 (xavier_rows g k3 128 1024) (replicate 1024 0) \<and>
     fc1 (net_decoder ?n) = Linear 1024 2048 (xavier_rows g k4 1024 2048) (replicate 2048 0) \<and>
     fc2 (net_decoder ?n) = Linear 2048 4096 (xavier_rows g k5 2048 4096) (replicate 4096 0) \<and>
     fc3 (net_decoder ?n) =
       Linear 4096 (2048 * 3) (xavier_rows g k6 4096 (2048 * 3)) (replicate (2048 * 3) 0)"
    unfolding k1_def k2_def k3_def k4_def k5_def k6_def
    by (simp add: create_pcn_model_def PointCloudCompletionNet_init_def
        PointCloudEncoder_init_def PointCloudDecoder_init_def apply_init_weights_def
        nn_Linear_advance nn_Conv1d_advance init_weights_advance Let_def split_def
        del: init_weights.simps)
  then show ?thesis unfolding advance_0 by blast
qed

lemma scaled_draws_bounds:
  assumes "\<forall>i. 0 \<le> g i \<and> g i < 1" and "0 \<le> a"
  shows "\<forall>w\<in>set (scaled_draws g k a n). - a \<le> w \<and> w \<le> a"
proof -
  have "- a \<le> - a + 2 * a * g (k + j) \<and> - a + 2 * a * g (k + j) \<le> a" for j
  proof -
    from assms(1) have 0: "0 \<le> g (k + j)" and 1: "g (k + j) \<le> 1"
      by (simp_all add: less_imp_le)
    have "0 \<le> 2 * a * g (k + j)" using assms(2) 0 by simp
    moreover have "2 * a * g (k + j) \<le> 2 * a * 1"
      using assms(2) 1 by (intro mult_left_mono) simp_all
    ultimately show ?thesis by simp
  qed
  then show ?thesis by (auto simp: scaled_draws_def)
qed

lemma set_concat_rows_subset: "set (concat (rows r c d)) \<subseteq> set d"
  by (auto simp: rows_def dest!: in_set_takeD in_set_dropD)

lemma xavier_rows_bounds:
  assumes "\<forall>i. 0 \<le> g i \<and> g i < 1"
  shows "\<forall>w\<in>set (concat (xavier_rows g k n_in n_out)).
           - xavier_bound n_in n_out \<le> w \<and> w \<le> xavier_bound n_in n_out"
proof -
  have "0 \<le> xavier_bound n_in n_out" by (simp add: xavier_bound_def)
  from scaled_draws_bounds[OF assms this, of k "n_out * n_in"]
    set_concat_rows_subset[of n_out n_in "scaled_draws g k (xavier_bound n_in n_out) (n_out * n_in)"]
  show ?thesis unfolding xavier_rows_def by (meson subsetD)
qed

lemma default_bias_nth:
  "j < n_out \<Longrightarrow> default_bias g k n_in n_out ! j =
     - bias_bound n_in + 2 * bias_bound n_in * g (k + j)"
  by (simp add: default_bias_def scaled_draws_def)

section \<open>The claims\<close>

text \<open>
  C1. For every instance of either network, whatever its parameter values, and every
  batch of clouds of \<open>N > 0\<close> points of three coordinates, the forward pass returns
  a tensor of shape \<open>[B, output_points, 3]\<close> holding exactly that many values, whatever
  \<open>N\<close> is; for the models the two scripts create that is 2048 points of 3 coordinates.
  An instance is one whose sizes let the forward pass run at all: SimplePCN needs
  \<open>feature_dim > 0\<close>, since its encoder normalizes \<open>feature_dim\<close> channels and a
  normalization of zero channels raises; the second network infers the batch size in its
  last reshape, which needs \<open>output_points > 0\<close>.
\<close>

theorem forward_output_shape:
  assumes "wf_tensor t" and "shape t = [B, N, 3]" and "0 < N"
  shows "(valid_SimplePCN m \<and> 0 < feature_dim m \<longrightarrow>
            (\<exists>out. SimplePCN_forward m t = Inr out \<and>
                   shape out = [B, output_points m, 3] \<and> wf_tensor out)) \<and>
         (valid_PointCloudCompletionNet n \<and> 0 < net_output_points n \<longrightarrow>
            (\<exists>out. PointCloudCompletionNet_forward n t = Inr out \<and>
                   shape out = [B, net_output_points n, 3] \<and> wf_tensor out)) \<and>
         (\<exists>out. SimplePCN_forward (fst (create_model g)) t = Inr out \<and>
                shape out = [B, 2048, 3] \<and> wf_tensor out) \<and>
         (\<exists>out. PointCloudCompletionNet_forward (fst (create_pcn_model g)) t = Inr out \<and>
                shape out = [B, 2048, 3] \<and> wf_tensor out)"
proof -
  have s: "\<exists>out. SimplePCN_forward m t = Inr out \<and>
                   shape out = [B, output_points m, 3] \<and> wf_tensor out"
    if v: "valid_SimplePCN m" and fd: "0 < feature_dim m" for m
  proof -
    from v have "list_all wf_layer (decoder m)"
      "chain (map kind_of (decoder m)) (feature_dim m) = Some (output_points m * 3)"
      by (simp_all add: valid_SimplePCN_def chain_SimplePCN_decoder)
    then have "wf_tensor \<lparr>shape = [B, output_points m, 3],
           data = concat (map (\<lambda>b. point_forward (decoder m)
             (global_max (feature_dim m) (map (point_forward (encoder m)) (cloud t b)))) [0..<B])\<rparr>"
      by (rule wf_completed) simp
    then show ?thesis
      by (simp add: SimplePCN_forward_eq[OF v assms fd])
  qed
  have p: "\<exists>out. PointCloudCompletionNet_forward n t = Inr out \<and>
                   shape out = [B, net_output_points n, 3] \<and> wf_tensor out"
    if v: "valid_PointCloudCompletionNet n" and P: "0 < net_output_points n" for n
  proof -
    from v have "list_all wf_layer (PointCloudDecoder_layers (net_decoder n))"
      "chain (map kind_of (PointCloudDecoder_layers (net_decoder n))) 1024 =
         Some (net_output_points n * 3)"
      by (simp_all add: valid_PointCloudCompletionNet_def chain_PointCloudDecoder)
    then have "wf_tensor \<lparr>shape = [B, net_output_points n, 3],
           data = concat (map (\<lambda>b. point_forward (PointCloudDecoder_layers (net_decoder n))
             (global_max 1024 (map (point_forward (PointCloudEncoder_layers (net_encoder n)))
                (cloud t b)))) [0..<B])\<rparr>"
      by (rule wf_completed) simp
    then show ?thesis
      by (simp add: PointCloudCompletionNet_forward_eq[OF v assms P])
  qed
  show ?thesis
    using s[of m] p[of n] s[OF valid_create_model(1), of g]
      p[OF valid_create_pcn_model(1), of g]
    by (simp add: valid_create_model valid_create_pcn_model)
qed

theorem forward_output_shape_witness:
  "(\<exists>out. SimplePCN_forward (fst (create_model (\<lambda>i. 0))) two_points = Inr out \<and>
          shape out = [1, 2048, 3] \<and> wf_tensor out) \<and>
   (\<exists>out. PointCloudCompletionNet_forward (fst (create_pcn_model (\<lambda>i. 0))) two_points = Inr out \<and>
          shape out = [1, 2048, 3] \<and> wf_tensor out)"
  using forward_output_shape[of two_points 1 2 "fst (create_model (\<lambda>i. 0))"
      "fst (create_pcn_model (\<lambda>i. 0))" "\<lambda>i. 0"]
  by (simp add: two_points_def wf_tensor_def valid_create_model valid_create_pcn_model)

text \<open>
  C2. In exact arithmetic the completed cloud depends only on the set of points of each
  input cloud.  Two batches whose clouds hold the same points, in any order and with any
  repetitions (a permutation of the points is the special case of equal multisets), are
  completed to the identical tensor by either network: the encoder applies the same
  layers to every point and the pooling is a channel-wise maximum over the points.
  (SimplePCN with \<open>feature_dim > 0\<close>, the second network with \<open>output_points > 0\<close>:
  otherwise the forward pass raises on every input.)
\<close>

theorem forward_permutation_invariant:
  assumes "wf_tensor t" and "shape t = [B, N, 3]" and "0 < N"
    and "wf_tensor t'" and "shape t' = [B, N', 3]" and "0 < N'"
    and "\<forall>b<B. set (cloud t' b) = set (cloud t b)"
  shows "(valid_SimplePCN m \<and> 0 < feature_dim m \<longrightarrow>
            (\<exists>out. SimplePCN_forward m t = Inr out \<and> SimplePCN_forward m t' = Inr out)) \<and>
         (valid_PointCloudCompletionNet n \<and> 0 < net_output_points n \<longrightarrow>
            (\<exists>out. PointCloudCompletionNet_forward n t = Inr out \<and>
                   PointCloudCompletionNet_forward n t' = Inr out))"
proof -
  have g: "global_max fd (map pf (cloud t' b)) = global_max fd (map pf (cloud t b))"
    if "b < B" for b fd pf
  proof (rule global_max_set)
    show "cloud t' b \<noteq> []" using assms(5,6) by (rule cloud_nonempty)
    show "cloud t b \<noteq> []" using assms(2,3) by (rule cloud_nonempty)
    show "set (cloud t' b) = set (cloud t b)" using assms(7) that by simp
  qed
  have c: "concat (map (\<lambda>b. pd (global_max fd (map pf (cloud t' b)))) [0..<B]) =
           concat (map (\<lambda>b. pd (global_max fd (map pf (cloud t b)))) [0..<B])" for pd fd pf
    by (intro arg_cong[where f = concat] map_cong refl) (simp add: g)
  show ?thesis
    by (simp add: SimplePCN_forward_eq[OF _ assms(1-3)] SimplePCN_forward_eq[OF _ assms(4-6)]
        PointCloudCompletionNet_forward_eq[OF _ assms(1-3)]
        PointCloudCompletionNet_forward_eq[OF _ assms(4-6)] c)
qed

theorem forward_permutation_invariant_witness:
  "(\<exists>out. SimplePCN_forward (fst (create_model (\<lambda>i. 0))) two_points = Inr out \<and>
          SimplePCN_forward (fst (create_model (\<lambda>i. 0))) three_points = Inr out) \<and>
   (\<exists>out. PointCloudCompletionNet_forward (fst (create_pcn_model (\<lambda>i. 0))) two_points = Inr out \<and>
          PointCloudCompletionNet_forward (fst (create_pcn_model (\<lambda>i. 0))) three_points = Inr out)"
proof -
  have "\<forall>b<1. set (cloud three_points b) = set (cloud two_points b)"
    by (auto simp: cloud_two_points cloud_three_points)
  then show ?thesis
    using forward_permutation_invariant[of two_points 1 2 three_points 3
        "fst (create_model (\<lambda>i. 0))" "fst (create_pcn_model (\<lambda>i. 0))"]
    by (simp add: wf_tensor_def valid_create_model valid_create_pcn_model
        two_points_def three_points_def)
qed

text \<open>
  C3, as the code has it.  Neither network checks its input; what fails is the first
  library operation the shape does not fit, with that operation's exception.  For a batch
  of at least one cloud whose clouds are empty or whose points have other than three
  coordinates, no cloud is returned: SimplePCN raises IndexError for the empty set (the
  maximum over a dimension of size zero) and RuntimeError for a wrong coordinate count
  (a \<open>view\<close> that does not fit); PointCloudCompletionNet raises RuntimeError in both
  cases (its first convolution).  SimplePCN's second case needs \<open>feature_dim > 0\<close>.
\<close>

theorem forward_rejects_bad_shape:
  assumes "wf_tensor t" and "shape t = [B, N, D]" and "0 < B" and "N = 0 \<or> D \<noteq> 3"
  shows "(valid_SimplePCN m \<and> 0 < feature_dim m \<longrightarrow>
            SimplePCN_forward m t = Inl (if N = 0 then IndexError else RuntimeError)) \<and>
         (valid_PointCloudCompletionNet n \<longrightarrow>
            PointCloudCompletionNet_forward n t = Inl RuntimeError)"
proof (intro conjI impI)
  assume "valid_SimplePCN m \<and> 0 < feature_dim m"
  then have v: "valid_SimplePCN m" and fd: "0 < feature_dim m" by simp_all
  show "SimplePCN_forward m t = Inl (if N = 0 then IndexError else RuntimeError)"
  proof (cases "N = 0")
    case True
    with SimplePCN_forward_empty[OF v assms(1) _ fd, of B D] assms(2) show ?thesis by simp
  next
    case False
    with assms(4) have "0 < N" "D \<noteq> 3" by simp_all
    with SimplePCN_forward_wrong_dim[OF v fd assms(1,2,3)] False show ?thesis by simp
  qed
next
  assume "valid_PointCloudCompletionNet n"
  then show "PointCloudCompletionNet_forward n t = Inl RuntimeError"
    using assms(2,4) by (rule PointCloudCompletionNet_forward_bad_shape)
qed

theorem forward_rejects_bad_shape_witness:
  "SimplePCN_forward (fst (create_model (\<lambda>i. 0))) empty_cloud = Inl IndexError \<and>
   PointCloudCompletionNet_forward (fst (create_pcn_model (\<lambda>i. 0))) empty_cloud = Inl RuntimeError \<and>
   SimplePCN_forward (fst (create_model (\<lambda>i. 0))) flat_cloud = Inl RuntimeError \<and>
   PointCloudCompletionNet_forward (fst (create_pcn_model (\<lambda>i. 0))) flat_cloud = Inl RuntimeError"
  using forward_rejects_bad_shape[of empty_cloud 1 0 3 "fst (create_model (\<lambda>i. 0))"
      "fst (create_pcn_model (\<lambda>i. 0))"]
    forward_rejects_bad_shape[of flat_cloud 1 1 2 "fst (create_model (\<lambda>i. 0))"
      "fst (create_pcn_model (\<lambda>i. 0))"]
  by (simp add: empty_cloud_def flat_cloud_def wf_tensor_def valid_create_model
      valid_create_pcn_model)

text \<open>
  C3 as worded, one error kind for both rejections, fails on SimplePCN: the empty
  cloud and the cloud of one two-coordinate point are rejected with different exceptions.
\<close>

theorem shape_error_kind_counterexample:
  "SimplePCN_forward (fst (create_model (\<lambda>i. 0))) empty_cloud = Inl IndexError \<and>
   SimplePCN_forward (fst (create_model (\<lambda>i. 0))) flat_cloud = Inl RuntimeError \<and>
   SimplePCN_forward (fst (create_model (\<lambda>i. 0))) empty_cloud \<noteq>
   SimplePCN_forward (fst (create_model (\<lambda>i. 0))) flat_cloud"
proof -
  let ?m = "fst (create_model (\<lambda>i. 0))"
  have e: "SimplePCN_forward ?m empty_cloud = Inl IndexError"
    by (rule SimplePCN_forward_empty[where B = 1 and D = 3])
      (simp_all add: valid_create_model empty_cloud_def wf_tensor_def)
  have f: "SimplePCN_forward ?m flat_cloud = Inl RuntimeError"
    by (rule SimplePCN_forward_wrong_dim[where B = 1 and N = 1 and D = 2])
      (simp_all add: valid_create_model flat_cloud_def wf_tensor_def)
  show ?thesis by (simp add: e f)
qed




text \<open>
  C5. A normalization layer run by the forward pass computes, for the value \<open>y\<close> of
  channel \<open>c\<close> of a point, \<open>scale * (y - mean) / sqrt (var + eps) + shift\<close> from the
  stored constants of that channel.  The result at a point is a function of that point's
  value alone: no other row of the batch and no batch size enters, both for the
  two-dimensional batches of SimplePCN and the decoders and for the channel-major
  three-dimensional batches of the convolutional encoder.  The layer has at least one
  channel (one of zero channels raises), and every normalization layer of the two
  networks is such a layer (SimplePCN with \<open>feature_dim > 0\<close>).
\<close>

theorem normalization_pointwise:
  "(wf_layer (BatchNorm1d nf g b m v e) \<and> 0 < nf \<and>
    length xs = r \<and> list_all (\<lambda>x. length x = nf) xs \<longrightarrow>
      (\<exists>out. layer_forward (BatchNorm1d nf g b m v e) \<lparr>shape = [r, nf], data = concat xs\<rparr>
               = Inr out \<and>
             shape out = [r, nf] \<and>
             (\<forall>i<r. \<forall>c<nf. item out [i, c] =
                g ! c * (xs ! i ! c - m ! c) / sqrt (v ! c + e) + b ! c))) \<and>
   (wf_layer (BatchNorm1d nf g b m v e) \<and> 0 < nf \<and>
    0 < N \<and> (\<forall>i<B. \<forall>j<N. length (f i j) = nf) \<longrightarrow>
      (\<exists>out. layer_forward (BatchNorm1d nf g b m v e) (cols B nf N f) = Inr out \<and>
             shape out = [B, nf, N] \<and>
             (\<forall>i<B. \<forall>c<nf. \<forall>j<N. item out [i, c, j] =
                g ! c * (f i j ! c - m ! c) / sqrt (v ! c + e) + b ! c))) \<and>
   (valid_SimplePCN net \<and> 0 < feature_dim net \<and>
    BatchNorm1d nf g b m v e \<in> set (encoder net @ decoder net) \<longrightarrow>
      wf_layer (BatchNorm1d nf g b m v e) \<and> 0 < nf) \<and>
   (valid_PointCloudCompletionNet pnet \<and>
    BatchNorm1d nf g b m v e \<in> set (PointCloudEncoder_layers (net_encoder pnet) @
                                   PointCloudDecoder_layers (net_decoder pnet)) \<longrightarrow>
      wf_layer (BatchNorm1d nf g b m v e) \<and> 0 < nf)"
proof (intro conjI impI)
  assume a: "wf_layer (BatchNorm1d nf g b m v e) \<and> 0 < nf \<and>
    length xs = r \<and> list_all (\<lambda>x. length x = nf) xs"
  let ?l = "BatchNorm1d nf g b m v e"
  have fw: "layer_forward ?l \<lparr>shape = [r, nf], data = concat xs\<rparr> =
        Inr \<lparr>shape = [r, nf], data = concat (map (layer_point ?l) xs)\<rparr>"
    using a by (intro layer_forward_rows) simp_all
  have all: "list_all (\<lambda>x. length x = nf) (map (layer_point ?l) xs)"
    using a by (simp add: list_all_iff bn_row_def)
  have "concat (map (layer_point ?l) xs) ! (i * nf + c) =
        g ! c * (xs ! i ! c - m ! c) / sqrt (v ! c + e) + b ! c" if "i < r" "c < nf" for i c
  proof -
    have "length (xs ! i) = nf" using a that by (simp add: list_all_length)
    then show ?thesis
      using a that by (simp add: nth_concat_uniform[OF all] nth_bn_row bn_channel_formula)
  qed
  then show "\<exists>out. layer_forward ?l \<lparr>shape = [r, nf], data = concat xs\<rparr> = Inr out \<and>
                   shape out = [r, nf] \<and>
                   (\<forall>i<r. \<forall>c<nf. item out [i, c] =
                      g ! c * (xs ! i ! c - m ! c) / sqrt (v ! c + e) + b ! c)"
    unfolding fw by (simp add: item_def offset_2)
next
  assume a: "wf_layer (BatchNorm1d nf g b m v e) \<and> 0 < nf \<and>
    0 < N \<and> (\<forall>i<B. \<forall>j<N. length (f i j) = nf)"
  let ?l = "BatchNorm1d nf g b m v e"
  have fw: "layer_forward ?l (cols B nf N f) = Inr (cols B nf N (\<lambda>i j. layer_point ?l (f i j)))"
    using a by (intro layer_forward_cols) simp_all
  have "data (cols B nf N (\<lambda>i j. layer_point ?l (f i j))) ! ((i * nf + c) * N + j) =
        g ! c * (f i j ! c - m ! c) / sqrt (v ! c + e) + b ! c"
    if "i < B" "c < nf" "j < N" for i c j
    using a that by (simp add: cols_def nth_cols_data nth_bn_row bn_channel_formula)
  then show "\<exists>out. layer_forward ?l (cols B nf N f) = Inr out \<and>
                   shape out = [B, nf, N] \<and>
                   (\<forall>i<B. \<forall>c<nf. \<forall>j<N. item out [i, c, j] =
                      g ! c * (f i j ! c - m ! c) / sqrt (v ! c + e) + b ! c)"
    unfolding fw by (simp add: item_def) (simp add: cols_def offset_3_general)
next
  assume a: "valid_SimplePCN net \<and> 0 < feature_dim net \<and>
    BatchNorm1d nf g b m v e \<in> set (encoder net @ decoder net)"
  then have "list_all wf_layer (encoder net @ decoder net)"
    by (simp add: valid_SimplePCN_def)
  then have all: "\<forall>l\<in>set (encoder net @ decoder net). wf_layer l"
    by (simp only: list_all_iff)
  from a have mem: "BatchNorm1d nf g b m v e \<in> set (encoder net @ decoder net)"
    by blast
  from all mem show "wf_layer (BatchNorm1d nf g b m v e)"
    by (rule bspec)
  from mem have "kind_of (BatchNorm1d nf g b m v e) \<in> kind_of ` set (encoder net @ decoder net)"
    by (rule imageI)
  then have "KBatchNorm1d nf \<in> set (map kind_of (encoder net) @ map kind_of (decoder net))"
    by (auto simp: image_Un)
  with a show "0 < nf"
    by (auto simp: valid_SimplePCN_def SimplePCN_encoder_kinds_def SimplePCN_decoder_kinds_def)
next
  assume a: "valid_PointCloudCompletionNet pnet \<and>
    BatchNorm1d nf g b m v e \<in> set (PointCloudEncoder_layers (net_encoder pnet) @
                                   PointCloudDecoder_layers (net_decoder pnet))"
  let ?ls = "PointCloudEncoder_layers (net_encoder pnet) @
             PointCloudDecoder_layers (net_decoder pnet)"
  from a have "list_all wf_layer ?ls"
    by (simp add: valid_PointCloudCompletionNet_def)
  then have all: "\<forall>l\<in>set ?ls. wf_layer l"
    by (simp only: list_all_iff)
  from a have mem: "BatchNorm1d nf g b m v e \<in> set ?ls"
    by blast
  from all mem show "wf_layer (BatchNorm1d nf g b m v e)"
    by (rule bspec)
  from mem have "kind_of (BatchNorm1d nf g b m v e) \<in> kind_of ` set ?ls"
    by (rule imageI)
  then have "KBatchNorm1d nf \<in> set (map kind_of (PointCloudEncoder_layers (net_encoder pnet)) @
                                 map kind_of (PointCloudDecoder_layers (net_decoder pnet)))"
    by (auto simp: image_Un)
  with a show "0 < nf"
    by (auto simp: valid_PointCloudCompletionNet_def PointCloudEncoder_kinds_def
        PointCloudDecoder_kinds_def)
qed

theorem normalization_pointwise_witness:
  "(\<exists>out. layer_forward (BatchNorm1d 2 [1, 1] [0, 0] [0, 0] [1, 1] (1 / 100000))
            \<lparr>shape = [2, 2], data = concat [[1, 2], [3, 4]]\<rparr> = Inr out \<and>
          shape out = [2, 2] \<and>
          (\<forall>i<2. \<forall>c<2. item out [i, c] =
             [1, 1] ! c * ([[1, 2], [3, 4]] ! i ! c - [0, 0] ! c) / sqrt ([1, 1] ! c + 1 / 100000)
               + [0, 0] ! c)) \<and>
   (\<exists>out. layer_forward (BatchNorm1d 2 [1, 1] [0, 0] [0, 0] [1, 1] (1 / 100000))
            (cols 1 2 1 (\<lambda>i j. [5, 6])) = Inr out \<and>
          shape out = [1, 2, 1] \<and>
          (\<forall>i<1. \<forall>c<2. \<forall>j<1. item out [i, c, j] =
             [1, 1] ! c * ([5, 6] ! c - [0, 0] ! c) / sqrt ([1, 1] ! c + 1 / 100000) + [0, 0] ! c)) \<and>
   wf_layer (nn_BatchNorm1d 128) \<and> wf_layer (nn_BatchNorm1d 64)"
proof -
  let ?m = "fst (create_model (\<lambda>i. 0))" and ?n = "fst (create_pcn_model (\<lambda>i. 0))"
  have s: "nn_BatchNorm1d 128 \<in> set (encoder ?m @ decoder ?m)"
    by (simp add: create_model_def SimplePCN_init_def split_def Let_def)
  have p: "nn_BatchNorm1d 64 \<in> set (PointCloudEncoder_layers (net_encoder ?n) @
                                   PointCloudDecoder_layers (net_decoder ?n))"
    by (simp add: create_pcn_model_def PointCloudCompletionNet_init_def
        PointCloudEncoder_init_def PointCloudDecoder_init_def apply_init_weights_def
        PointCloudEncoder_layers_def split_def Let_def)
  have v: "valid_SimplePCN ?m" "0 < feature_dim ?m" "valid_PointCloudCompletionNet ?n"
    by (simp_all add: valid_create_model valid_create_pcn_model)
  from normalization_pointwise[of 128 "replicate 128 1" "replicate 128 0" "replicate 128 0"
      "replicate 128 1" "1 / 100000" _ _ _ _ _ ?m ?n] s v
  have a: "wf_layer (nn_BatchNorm1d 128)"
    unfolding nn_BatchNorm1d_def by blast
  from normalization_pointwise[of 64 "replicate 64 1" "replicate 64 0" "replicate 64 0"
      "replicate 64 1" "1 / 100000" _ _ _ _ _ ?m ?n] p v
  have b: "wf_layer (nn_BatchNorm1d 64)"
    unfolding nn_BatchNorm1d_def by blast
  from a b normalization_pointwise[of 2 "[1, 1]" "[0, 0]" "[0, 0]" "[1, 1]" "1 / 100000"
      "[[1, 2], [3, 4]]" 2 1 1 "\<lambda>i j. [5, 6]"]
  show ?thesis by simp
qed

text \<open>
  C6. The decoder of either network is two hidden layers, each an affine transform
  followed by a normalization and the clamp at zero, and then a final layer that is the
  affine transform alone.  The function the layer stack computes on a global descriptor is
  \<open>spec_decoder\<close>, written from that description, and the data of the completed cloud
  is the raw output of the final affine transform on each row of the pooled descriptor.
  (SimplePCN with \<open>feature_dim > 0\<close>, the second network with \<open>output_points > 0\<close>:
  otherwise the forward pass raises before or after the decoder.)
\<close>

theorem decoder_structure:
  "(valid_SimplePCN m \<and> 0 < feature_dim m \<longrightarrow>
      (\<exists>l1 n1 l2 n2 l3.
         decoder m = [l1, n1, ReLU, l2, n2, ReLU, l3] \<and>
         kind_of l1 = KLinear (feature_dim m) 1024 \<and> kind_of n1 = KBatchNorm1d 1024 \<and>
         kind_of l2 = KLinear 1024 2048 \<and> kind_of n2 = KBatchNorm1d 2048 \<and>
         kind_of l3 = KLinear 2048 (output_points m * 3) \<and>
         (\<forall>x. point_forward (decoder m) x = spec_decoder [(l1, n1), (l2, n2)] l3 x) \<and>
         (\<forall>t B N. wf_tensor t \<and> shape t = [B, N, 3] \<and> 0 < N \<longrightarrow>
            (\<exists>gf out. SimplePCN_global_feature m t = Inr gf \<and>
               SimplePCN_forward m t = Inr out \<and>
               data out = concat (map (spec_decoder [(l1, n1), (l2, n2)] l3)
                                   (rows B (feature_dim m) (data gf))))))) \<and>
   (valid_PointCloudCompletionNet n \<and> 0 < net_output_points n \<longrightarrow>
      kind_of (fc1 (net_decoder n)) = KLinear 1024 2048 \<and>
      kind_of (dec_bn1 (net_decoder n)) = KBatchNorm1d 2048 \<and>
      kind_of (fc2 (net_decoder n)) = KLinear 2048 4096 \<and>
      kind_of (dec_bn2 (net_decoder n)) = KBatchNorm1d 4096 \<and>
      kind_of (fc3 (net_decoder n)) = KLinear 4096 (net_output_points n * 3) \<and>
      (\<forall>x. point_forward (PointCloudDecoder_layers (net_decoder n)) x =
           spec_decoder [(fc1 (net_decoder n), dec_bn1 (net_decoder n)),
                         (fc2 (net_decoder n), dec_bn2 (net_decoder n))]
             (fc3 (net_decoder n)) x) \<and>
      (\<forall>t B N. wf_tensor t \<and> shape t = [B, N, 3] \<and> 0 < N \<longrightarrow>
         (\<exists>xt gf out. transpose12 t = Inr xt \<and>
            PointCloudEncoder_forward (net_encoder n) xt = Inr gf \<and>
            PointCloudCompletionNet_forward n t = Inr out \<and>
            data out = concat (map (spec_decoder
                [(fc1 (net_decoder n), dec_bn1 (net_decoder n)),
                 (fc2 (net_decoder n), dec_bn2 (net_decoder n))] (fc3 (net_decoder n)))
              (rows B 1024 (data gf))))))"
proof (intro conjI impI)
  assume "valid_SimplePCN m \<and> 0 < feature_dim m"
  then have v: "valid_SimplePCN m" and fd: "0 < feature_dim m" by simp_all
  from SimplePCN_decoder_layers[OF v] obtain l1 n1 l2 n2 l3 where
    d: "decoder m = [l1, n1, ReLU, l2, n2, ReLU, l3]"
    and k: "kind_of l1 = KLinear (feature_dim m) 1024" "kind_of n1 = KBatchNorm1d 1024"
      "kind_of l2 = KLinear 1024 2048" "kind_of n2 = KBatchNorm1d 2048"
      "kind_of l3 = KLinear 2048 (output_points m * 3)"
    by blast
  have pf: "point_forward (decoder m) x = spec_decoder [(l1, n1), (l2, n2)] l3 x" for x
    unfolding d using k by (rule decoder_stack_spec)
  have fw: "\<exists>gf out. SimplePCN_global_feature m t = Inr gf \<and>
               SimplePCN_forward m t = Inr out \<and>
               data out = concat (map (spec_decoder [(l1, n1), (l2, n2)] l3)
                                   (rows B (feature_dim m) (data gf)))"
    if "wf_tensor t \<and> shape t = [B, N, 3] \<and> 0 < N" for t B N
  proof -
    from that have a: "wf_tensor t" "shape t = [B, N, 3]" "0 < N" by simp_all
    let ?g = "map (\<lambda>b. global_max (feature_dim m)
                   (map (point_forward (encoder m)) (cloud t b))) [0..<B]"
    have "rows B (feature_dim m) (concat ?g) = ?g"
      by (intro rows_concat list_all_global_max) simp
    then show ?thesis
      by (simp add: SimplePCN_global_feature_eq[OF v a fd] SimplePCN_forward_eq[OF v a fd]
          pf[symmetric] comp_def)
  qed
  from d k pf fw show "\<exists>l1 n1 l2 n2 l3.
         decoder m = [l1, n1, ReLU, l2, n2, ReLU, l3] \<and>
         kind_of l1 = KLinear (feature_dim m) 1024 \<and> kind_of n1 = KBatchNorm1d 1024 \<and>
         kind_of l2 = KLinear 1024 2048 \<and> kind_of n2 = KBatchNorm1d 2048 \<and>
         kind_of l3 = KLinear 2048 (output_points m * 3) \<and>
         (\<forall>x. point_forward (decoder m) x = spec_decoder [(l1, n1), (l2, n2)] l3 x) \<and>
         (\<forall>t B N. wf_tensor t \<and> shape t = [B, N, 3] \<and> 0 < N \<longrightarrow>
            (\<exists>gf out. SimplePCN_global_feature m t = Inr gf \<and>
               SimplePCN_forward m t = Inr out \<and>
               data out = concat (map (spec_decoder [(l1, n1), (l2, n2)] l3)
                                   (rows B (feature_dim m) (data gf)))))"
    by blast
next
  assume "valid_PointCloudCompletionNet n \<and> 0 < net_output_points n"
  then have v: "valid_PointCloudCompletionNet n" and P: "0 < net_output_points n"
    by simp_all
  let ?d = "net_decoder n"
  from v have k: "kind_of (fc1 ?d) = KLinear 1024 2048"
    "kind_of (dec_bn1 ?d) = KBatchNorm1d 2048"
    "kind_of (fc2 ?d) = KLinear 2048 4096"
    "kind_of (dec_bn2 ?d) = KBatchNorm1d 4096"
    "kind_of (fc3 ?d) = KLinear 4096 (net_output_points n * 3)"
    by (simp_all add: valid_PointCloudCompletionNet_def PointCloudDecoder_layers_def
        PointCloudDecoder_kinds_def)
  have pf: "point_forward (PointCloudDecoder_layers ?d) x =
      spec_decoder [(fc1 ?d, dec_bn1 ?d), (fc2 ?d, dec_bn2 ?d)] (fc3 ?d) x" for x
    unfolding PointCloudDecoder_layers_def using k by (rule decoder_stack_spec)
  have fw: "\<exists>xt gf out. transpose12 t = Inr xt \<and>
            PointCloudEncoder_forward (net_encoder n) xt = Inr gf \<and>
            PointCloudCompletionNet_forward n t = Inr out \<and>
            data out = concat (map (spec_decoder
                [(fc1 ?d, dec_bn1 ?d), (fc2 ?d, dec_bn2 ?d)] (fc3 ?d)) (rows B 1024 (data gf)))"
    if "wf_tensor t \<and> shape t = [B, N, 3] \<and> 0 < N" for t B N
  proof -
    from that have a: "wf_tensor t" "shape t = [B, N, 3]" "0 < N" by simp_all
    let ?g = "map (\<lambda>b. global_max 1024
       (map (point_forward (PointCloudEncoder_layers (net_encoder n))) (cloud t b))) [0..<B]"
    have r: "rows B 1024 (concat ?g) = ?g"
      by (intro rows_concat list_all_global_max) simp
    from PointCloudEncoder_forward_eq[OF v a] obtain xt where
      "transpose12 t = Inr xt"
      "PointCloudEncoder_forward (net_encoder n) xt =
         Inr \<lparr>shape = [B, 1024, 1], data = concat ?g\<rparr>"
      by blast
    then show ?thesis
      using r by (simp add: PointCloudCompletionNet_forward_eq[OF v a P] pf[symmetric] comp_def)
  qed
  from k show "kind_of (fc1 ?d) = KLinear 1024 2048" "kind_of (dec_bn1 ?d) = KBatchNorm1d 2048"
    "kind_of (fc2 ?d) = KLinear 2048 4096" "kind_of (dec_bn2 ?d) = KBatchNorm1d 4096"
    "kind_of (fc3 ?d) = KLinear 4096 (net_output_points n * 3)"
    by simp_all
  from pf show "\<forall>x. point_forward (PointCloudDecoder_layers ?d) x =
      spec_decoder [(fc1 ?d, dec_bn1 ?d), (fc2 ?d, dec_bn2 ?d)] (fc3 ?d) x"
    by simp
  from fw show "\<forall>t B N. wf_tensor t \<and> shape t = [B, N, 3] \<and> 0 < N \<longrightarrow>
         (\<exists>xt gf out. transpose12 t = Inr xt \<and>
            PointCloudEncoder_forward (net_encoder n) xt = Inr gf \<and>
            PointCloudCompletionNet_forward n t = Inr out \<and>
            data out = concat (map (spec_decoder
                [(fc1 ?d, dec_bn1 ?d), (fc2 ?d, dec_bn2 ?d)] (fc3 ?d)) (rows B 1024 (data gf))))"
    by blast
qed

theorem decoder_structure_witness:
  "(\<exists>l1 n1 l2 n2 l3.
      decoder (fst (create_model (\<lambda>i. 0))) = [l1, n1, ReLU, l2, n2, ReLU, l3] \<and>
      kind_of l1 = KLinear 512 1024 \<and> kind_of n1 = KBatchNorm1d 1024 \<and>
      kind_of l2 = KLinear 1024 2048 \<and> kind_of n2 = KBatchNorm1d 2048 \<and>
      kind_of l3 = KLinear 2048 (2048 * 3) \<and>
      (\<exists>gf out. SimplePCN_global_feature (fst (create_model (\<lambda>i. 0))) two_points = Inr gf \<and>
         SimplePCN_forward (fst (create_model (\<lambda>i. 0))) two_points = Inr out \<and>
         data out = concat (map (spec_decoder [(l1, n1), (l2, n2)] l3) (rows 1 512 (data gf))))) \<and>
   kind_of (fc3 (net_decoder (fst (create_pcn_model (\<lambda>i. 0))))) = KLinear 4096 (2048 * 3) \<and>
   (\<exists>xt gf out. transpose12 two_points = Inr xt \<and>
      PointCloudEncoder_forward (net_encoder (fst (create_pcn_model (\<lambda>i. 0)))) xt = Inr gf \<and>
      PointCloudCompletionNet_forward (fst (create_pcn_model (\<lambda>i. 0))) two_points = Inr out \<and>
      data out = concat (map (spec_decoder
          [(fc1 (net_decoder (fst (create_pcn_model (\<lambda>i. 0)))),
            dec_bn1 (net_decoder (fst (create_pcn_model (\<lambda>i. 0))))),
           (fc2 (net_decoder (fst (create_pcn_model (\<lambda>i. 0)))),
            dec_bn2 (net_decoder (fst (create_pcn_model (\<lambda>i. 0)))))]
          (fc3 (net_decoder (fst (create_pcn_model (\<lambda>i. 0))))))
        (rows 1 1024 (data gf))))"
proof -
  let ?m = "fst (create_model (\<lambda>i. 0))" and ?n = "fst (create_pcn_model (\<lambda>i. 0))"
  have v: "valid_SimplePCN ?m \<and> (0::nat) < 512"
    "valid_PointCloudCompletionNet ?n \<and> (0::nat) < 2048"
    by (simp_all add: valid_create_model valid_create_pcn_model)
  have w: "wf_tensor two_points \<and> shape two_points = [1, 2, 3] \<and> (0::nat) < 2"
    by (simp add: two_points_def wf_tensor_def)
  have f: "feature_dim ?m = 512" "output_points ?m = 2048" "net_output_points ?n = 2048"
    by (simp_all add: valid_create_model valid_create_pcn_model)
  note th = decoder_structure[of ?m ?n, unfolded f]
  from th v(1) obtain l1 n1 l2 n2 l3 where
    s: "decoder ?m = [l1, n1, ReLU, l2, n2, ReLU, l3]"
      "kind_of l1 = KLinear 512 1024" "kind_of n1 = KBatchNorm1d 1024"
      "kind_of l2 = KLinear 1024 2048" "kind_of n2 = KBatchNorm1d 2048"
      "kind_of l3 = KLinear 2048 (2048 * 3)"
      "\<forall>t B N. wf_tensor t \<and> shape t = [B, N, 3] \<and> 0 < N \<longrightarrow>
            (\<exists>gf out. SimplePCN_global_feature ?m t = Inr gf \<and>
               SimplePCN_forward ?m t = Inr out \<and>
               data out = concat (map (spec_decoder [(l1, n1), (l2, n2)] l3)
                                   (rows B 512 (data gf))))"
    by blast
  from s(7) w have s1: "\<exists>gf out. SimplePCN_global_feature ?m two_points = Inr gf \<and>
         SimplePCN_forward ?m two_points = Inr out \<and>
         data out = concat (map (spec_decoder [(l1, n1), (l2, n2)] l3) (rows 1 512 (data gf)))"
    by blast
  from th v(2) have p: "kind_of (fc3 (net_decoder ?n)) = KLinear 4096 (2048 * 3)"
    "\<forall>t B N. wf_tensor t \<and> shape t = [B, N, 3] \<and> 0 < N \<longrightarrow>
         (\<exists>xt gf out. transpose12 t = Inr xt \<and>
            PointCloudEncoder_forward (net_encoder ?n) xt = Inr gf \<and>
            PointCloudCompletionNet_forward ?n t = Inr out \<and>
            data out = concat (map (spec_decoder
                [(fc1 (net_decoder ?n), dec_bn1 (net_decoder ?n)),
                 (fc2 (net_decoder ?n), dec_bn2 (net_decoder ?n))] (fc3 (net_decoder ?n)))
              (rows B 1024 (data gf))))"
    by blast+
  from p(2) w have p1: "\<exists>xt gf out. transpose12 two_points = Inr xt \<and>
            PointCloudEncoder_forward (net_encoder ?n) xt = Inr gf \<and>
            PointCloudCompletionNet_forward ?n two_points = Inr out \<and>
            data out = concat (map (spec_decoder
                [(fc1 (net_decoder ?n), dec_bn1 (net_decoder ?n)),
                 (fc2 (net_decoder ?n), dec_bn2 (net_decoder ?n))] (fc3 (net_decoder ?n)))
              (rows 1 1024 (data gf)))"
    by blast
  from s(1-6) s1 p(1) p1 show ?thesis by blast
qed

text \<open>
  C7. The last step of either forward pass reshapes the decoder's flat output of
  shape \<open>[B, output_points * 3]\<close> to \<open>[B, output_points, 3]\<close> in row-major order:
  coordinate \<open>k\<close> of output point \<open>i\<close> of cloud \<open>b\<close> is the flat entry \<open>3 i + k\<close> of row
  \<open>b\<close>, that is the entries \<open>3 i\<close>, \<open>3 i + 1\<close> and \<open>3 i + 2\<close>.  (SimplePCN with
  \<open>feature_dim > 0\<close>, the second network with \<open>output_points > 0\<close>: otherwise the
  forward pass raises and there is nothing to reshape.)
\<close>

theorem reshape_row_major:
  assumes "wf_tensor t" and "shape t = [B, N, 3]" and "0 < N"
  shows "(valid_SimplePCN m \<and> 0 < feature_dim m \<longrightarrow>
            (\<exists>gf flat out.
               SimplePCN_global_feature m t = Inr gf \<and>
               Sequential_forward (decoder m) gf = Inr flat \<and>
               shape flat = [B, output_points m * 3] \<and>
               SimplePCN_forward m t = Inr out \<and>
               shape out = [B, output_points m, 3] \<and>
               (\<forall>b<B. \<forall>i<output_points m. \<forall>k<3.
                  item out [b, i, k] = item flat [b, 3 * i + k]))) \<and>
         (valid_PointCloudCompletionNet n \<and> 0 < net_output_points n \<longrightarrow>
            (\<exists>xt gf flat out.
               transpose12 t = Inr xt \<and>
               PointCloudEncoder_forward (net_encoder n) xt = Inr gf \<and>
               Sequential_forward (PointCloudDecoder_layers (net_decoder n)) (squeeze_last gf)
                 = Inr flat \<and>
               shape flat = [B, net_output_points n * 3] \<and>
               PointCloudCompletionNet_forward n t = Inr out \<and>
               shape out = [B, net_output_points n, 3] \<and>
               (\<forall>b<B. \<forall>i<net_output_points n. \<forall>k<3.
                  item out [b, i, k] = item flat [b, 3 * i + k])))"
proof (intro conjI impI)
  assume "valid_SimplePCN m \<and> 0 < feature_dim m"
  then have v: "valid_SimplePCN m" and fd: "0 < feature_dim m" by simp_all
  let ?g = "map (\<lambda>b. global_max (feature_dim m)
                   (map (point_forward (encoder m)) (cloud t b))) [0..<B]"
  have dec: "Sequential_forward (decoder m) \<lparr>shape = [B, feature_dim m], data = concat ?g\<rparr> =
        Inr \<lparr>shape = [B, output_points m * 3],
             data = concat (map (point_forward (decoder m)) ?g)\<rparr>"
    using v list_all_global_max by (rule SimplePCN_decoder_eq) simp
  show "\<exists>gf flat out.
               SimplePCN_global_feature m t = Inr gf \<and>
               Sequential_forward (decoder m) gf = Inr flat \<and>
               shape flat = [B, output_points m * 3] \<and>
               SimplePCN_forward m t = Inr out \<and>
               shape out = [B, output_points m, 3] \<and>
               (\<forall>b<B. \<forall>i<output_points m. \<forall>k<3.
                  item out [b, i, k] = item flat [b, 3 * i + k])"
    by (simp add: SimplePCN_global_feature_eq[OF v assms fd] dec
        SimplePCN_forward_eq[OF v assms fd] item_view_points comp_def)
next
  assume "valid_PointCloudCompletionNet n \<and> 0 < net_output_points n"
  then have v: "valid_PointCloudCompletionNet n" and P: "0 < net_output_points n"
    by simp_all
  let ?g = "map (\<lambda>b. global_max 1024
     (map (point_forward (PointCloudEncoder_layers (net_encoder n))) (cloud t b))) [0..<B]"
  from PointCloudEncoder_forward_eq[OF v assms] obtain xt where
    xt: "transpose12 t = Inr xt"
    "PointCloudEncoder_forward (net_encoder n) xt = Inr \<lparr>shape = [B, 1024, 1], data = concat ?g\<rparr>"
    by blast
  have dec: "Sequential_forward (PointCloudDecoder_layers (net_decoder n))
           (squeeze_last \<lparr>shape = [B, 1024, 1], data = concat ?g\<rparr>) =
         Inr \<lparr>shape = [B, net_output_points n * 3],
              data = concat (map (point_forward (PointCloudDecoder_layers (net_decoder n))) ?g)\<rparr>"
    using v list_all_global_max by (rule PointCloudDecoder_flat_eq) simp
  show "\<exists>xt gf flat out.
               transpose12 t = Inr xt \<and>
               PointCloudEncoder_forward (net_encoder n) xt = Inr gf \<and>
               Sequential_forward (PointCloudDecoder_layers (net_decoder n)) (squeeze_last gf)
                 = Inr flat \<and>
               shape flat = [B, net_output_points n * 3] \<and>
               PointCloudCompletionNet_forward n t = Inr out \<and>
               shape out = [B, net_output_points n, 3] \<and>
               (\<forall>b<B. \<forall>i<net_output_points n. \<forall>k<3.
                  item out [b, i, k] = item flat [b, 3 * i + k])"
    using xt dec
    by (simp add: PointCloudCompletionNet_forward_eq[OF v assms P] item_view_points comp_def)
qed

theorem reshape_row_major_witness:
  "(\<exists>gf flat out.
      SimplePCN_global_feature (fst (create_model (\<lambda>i. 0))) two_points = Inr gf \<and>
      Sequential_forward (decoder (fst (create_model (\<lambda>i. 0)))) gf = Inr flat \<and>
      shape flat = [1, 2048 * 3] \<and>
      SimplePCN_forward (fst (create_model (\<lambda>i. 0))) two_points = Inr out \<and>
      shape out = [1, 2048, 3] \<and>
      (\<forall>b<1. \<forall>i<2048. \<forall>k<3. item out [b, i, k] = item flat [b, 3 * i + k])) \<and>
   (\<exists>xt gf flat out.
      transpose12 two_points = Inr xt \<and>
      PointCloudEncoder_forward (net_encoder (fst (create_pcn_model (\<lambda>i. 0)))) xt = Inr gf \<and>
      Sequential_forward (PointCloudDecoder_layers (net_decoder (fst (create_pcn_model (\<lambda>i. 0)))))
        (squeeze_last gf) = Inr flat \<and>
      shape flat = [1, 2048 * 3] \<and>
      PointCloudCompletionNet_forward (fst (create_pcn_model (\<lambda>i. 0))) two_points = Inr out \<and>
      shape out = [1, 2048, 3] \<and>
      (\<forall>b<1. \<forall>i<2048. \<forall>k<3. item out [b, i, k] = item flat [b, 3 * i + k]))"
  using reshape_row_major[of two_points 1 2 "fst (create_model (\<lambda>i. 0))"
      "fst (create_pcn_model (\<lambda>i. 0))"]
  by (simp add: wf_tensor_def valid_create_model valid_create_pcn_model two_points_def)

text \<open>
  C8, as the code has it.  The second script applies \<open>init_weights\<close> to its model: every
  convolution and every fully connected layer of PointCloudCompletionNet ends with a zero
  bias and with weights that are consecutive draws of the generator scaled onto the
  Xavier interval \<open>[-a, a]\<close>, \<open>a = sqrt (6 / (fan_in + fan_out))\<close>.  The first script's
  \<open>create_model\<close> applies no initializer: the affine layers of SimplePCN keep the
  library's default, weights within the Kaiming bound and biases that are draws scaled
  onto \<open>[-1 / sqrt fan_in, 1 / sqrt fan_in]\<close>.
\<close>

theorem demonstration_initialisation:
  "(\<exists>k1 k2 k3 k4 k5 k6.
     conv1 (net_encoder (fst (create_pcn_model g))) =
       Conv1d 3 64 (xavier_rows g k1 3 64) (replicate 64 0) \<and>
     conv2 (net_encoder (fst (create_pcn_model g))) =
       Conv1d 64 128 (xavier_rows g k2 64 128) (replicate 128 0) \<and>
     conv3 (net_encoder (fst (create_pcn_model g))) =
       Conv1d 128 1024 (xavier_rows g k3 128 1024) (replicate 1024 0) \<and>
     fc1 (net_decoder (fst (create_pcn_model g))) =
       Linear 1024 2048 (xavier_rows g k4 1024 2048) (replicate 2048 0) \<and>
     fc2 (net_decoder (fst (create_pcn_model g))) =
       Linear 2048 4096 (xavier_rows g k5 2048 4096) (replicate 4096 0) \<and>
     fc3 (net_decoder (fst (create_pcn_model g))) =
       Linear 4096 (2048 * 3) (xavier_rows g k6 4096 (2048 * 3)) (replicate (2048 * 3) 0)) \<and>
   ((\<forall>i. 0 \<le> g i \<and> g i < 1) \<longrightarrow>
      (\<forall>w\<in>set (concat (xavier_rows g k n_in n_out)).
         - xavier_bound n_in n_out \<le> w \<and> w \<le> xavier_bound n_in n_out)) \<and>
   (\<exists>k1 k2 k3 k4 k5 k6 c1 c2 c3 c4 c5 c6.
     fst (create_model g) =
       \<lparr>input_points = 1024, output_points = 2048, feature_dim = 512,
        encoder = [Linear 3 128 (default_rows g k1 3 128) (default_bias g c1 3 128),
                   nn_BatchNorm1d 128, ReLU,
                   Linear 128 256 (default_rows g k2 128 256) (default_bias g c2 128 256),
                   nn_BatchNorm1d 256, ReLU,
                   Linear 256 512 (default_rows g k3 256 512) (default_bias g c3 256 512),
                   nn_BatchNorm1d 512, ReLU],
        decoder = [Linear 512 1024 (default_rows g k4 512 1024) (default_bias g c4 512 1024),
                   nn_BatchNorm1d 1024, ReLU,
                   Linear 1024 2048 (default_rows g k5 1024 2048) (default_bias g c5 1024 2048),
                   nn_BatchNorm1d 2048, ReLU,
                   Linear 2048 (2048 * 3) (default_rows g k6 2048 (2048 * 3))
                     (default_bias g c6 2048 (2048 * 3))]\<rparr>) \<and>
   (j < n_out \<longrightarrow> default_bias g k n_in n_out ! j =
      - bias_bound n_in + 2 * bias_bound n_in * g (k + j))"
proof (intro conjI impI)
  show "\<exists>k1 k2 k3 k4 k5 k6.
     conv1 (net_encoder (fst (create_pcn_model g))) =
       Conv1d 3 64 (xavier_rows g k1 3 64) (replicate 64 0) \<and>
     conv2 (net_encoder (fst (create_pcn_model g))) =
       Conv1d 64 128 (xavier_rows g k2 64 128) (replicate 128 0) \<and>
     conv3 (net_encoder (fst (create_pcn_model g))) =
       Conv1d 128 1024 (xavier_rows g k3 128 1024) (replicate 1024 0) \<and>
     fc1 (net_decoder (fst (create_pcn_model g))) =
       Linear 1024 2048 (xavier_rows g k4 1024 2048) (replicate 2048 0) \<and>
     fc2 (net_decoder (fst (create_pcn_model g))) =
       Linear 2048 4096 (xavier_rows g k5 2048 4096) (replicate 4096 0) \<and>
     fc3 (net_decoder (fst (create_pcn_model g))) =
       Linear 4096 (2048 * 3) (xavier_rows g k6 4096 (2048 * 3)) (replicate (2048 * 3) 0)"
    by (rule create_pcn_model_advance)
  show "\<forall>w\<in>set (concat (xavier_rows g k n_in n_out)).
         - xavier_bound n_in n_out \<le> w \<and> w \<le> xavier_bound n_in n_out"
    if "\<forall>i. 0 \<le> g i \<and> g i < 1"
    using that by (rule xavier_rows_bounds)
  show "\<exists>k1 k2 k3 k4 k5 k6 c1 c2 c3 c4 c5 c6.
     fst (create_model g) =
       \<lparr>input_points = 1024, output_points = 2048, feature_dim = 512,
        encoder = [Linear 3 128 (default_rows g k1 3 128) (default_bias g c1 3 128),
                   nn_BatchNorm1d 128, ReLU,
                   Linear 128 256 (default_rows g k2 128 256) (default_bias g c2 128 256),
                   nn_BatchNorm1d 256, ReLU,
                   Linear 256 512 (default_rows g k3 256 512) (default_bias g c3 256 512),
                   nn_BatchNorm1d 512, ReLU],
        decoder = [Linear 512 1024 (default_rows g k4 512 1024) (default_bias g c4 512 1024),
                   nn_BatchNorm1d 1024, ReLU,
                   Linear 1024 2048 (default_rows g k5 1024 2048) (default_bias g c5 1024 2048),
                   nn_BatchNorm1d 2048, ReLU,
                   Linear 2048 (2048 * 3) (default_rows g k6 2048 (2048 * 3))
                     (default_bias g c6 2048 (2048 * 3))]\<rparr>"
    unfolding create_model_def by (rule SimplePCN_init_advance)
  show "default_bias g k n_in n_out ! j = - bias_bound n_in + 2 * bias_bound n_in * g (k + j)"
    if "j < n_out"
    using that by (rule default_bias_nth)
qed

theorem demonstration_initialisation_witness:
  "list_all (\<lambda>w. - xavier_bound 3 64 \<le> w \<and> w \<le> xavier_bound 3 64)
     (concat (xavier_rows (\<lambda>i. 3 / 4) 0 3 64)) \<and>
   default_bias (\<lambda>i. 3 / 4) 0 3 64 ! 0 = - bias_bound 3 + 2 * bias_bound 3 * (3 / 4)"
  using demonstration_initialisation[of "\<lambda>i. 3 / 4" 0 3 64 0]
  by (simp add: list_all_iff)

text \<open>
  C8 as worded, zero biases in both networks, fails on SimplePCN: with a generator
  whose draws are all \<open>3/4\<close> the first bias of its first layer is \<open>1 / sqrt 3 / 2\<close>.
\<close>

theorem zero_bias_counterexample:
  "layer_bias (hd (encoder (fst (create_model (\<lambda>i. 3 / 4))))) ! 0 = 1 / sqrt 3 / 2 \<and>
   layer_bias (hd (encoder (fst (create_model (\<lambda>i. 3 / 4))))) \<noteq> replicate 128 0"
proof -
  let ?b = "layer_bias (hd (encoder (fst (create_model (\<lambda>i. 3 / 4)))))"
  have b: "?b = map (\<lambda>i. - (1 / sqrt 3) + (1 / sqrt 3 - - (1 / sqrt 3)) * (3 / 4)) [0..<128]"
    by (simp add: create_model_def SimplePCN_init_def nn_Linear_def nn_init_uniform_def
        Let_def split_def bias_bound_def)
  have v: "?b ! 0 = 1 / sqrt 3 / 2"
    unfolding b by (simp add: field_simps)
  have "replicate 128 (0::real) ! 0 = 0" by simp
  moreover have "1 / sqrt 3 / 2 \<noteq> (0::real)" by simp
  ultimately have "?b \<noteq> replicate 128 0" using v by metis
  with v show ?thesis by simp
qed

text \<open>
  C10. For every instance of either network and every batch of non-empty clouds, every
  channel of the pooled global descriptor is nonnegative: each per-point feature leaves
  the encoder through the clamp at zero, and the channel-wise maximum over at least one
  point keeps that lower bound.  (SimplePCN with \<open>feature_dim > 0\<close>: with no feature
  channel its encoder raises and there is no descriptor.)
\<close>

theorem global_descriptor_nonneg:
  assumes "wf_tensor t" and "shape t = [B, N, 3]" and "0 < N"
  shows "(valid_SimplePCN m \<and> 0 < feature_dim m \<longrightarrow>
            (\<exists>gf. SimplePCN_global_feature m t = Inr gf \<and>
                  shape gf = [B, feature_dim m] \<and> (\<forall>x\<in>set (data gf). 0 \<le> x))) \<and>
         (valid_PointCloudCompletionNet n \<longrightarrow>
            (\<exists>xt gf. transpose12 t = Inr xt \<and>
                  PointCloudEncoder_forward (net_encoder n) xt = Inr gf \<and>
                  shape gf = [B, 1024, 1] \<and> (\<forall>x\<in>set (data gf). 0 \<le> x)))"
proof (intro conjI impI)
  assume "valid_SimplePCN m \<and> 0 < feature_dim m"
  then have v: "valid_SimplePCN m" and fd: "0 < feature_dim m" by simp_all
  from v have ne: "encoder m \<noteq> []" and la: "kind_of (last (encoder m)) = KReLU"
    and we: "list_all wf_layer (encoder m)"
    and ke: "chain (map kind_of (encoder m)) 3 = Some (feature_dim m)"
    by (auto simp: valid_SimplePCN_def SimplePCN_encoder_kinds_def last_map[symmetric]
        chain_SimplePCN_encoder[unfolded SimplePCN_encoder_kinds_def])
  have "\<forall>x\<in>set (concat (map (\<lambda>b. global_max (feature_dim m)
          (map (point_forward (encoder m)) (cloud t b))) [0..<B])). 0 \<le> x"
  proof (rule concat_global_max_nonneg)
    show "cloud t b \<noteq> []" for b using assms(2,3) by (rule cloud_nonempty)
    show "length (point_forward (encoder m) p) = feature_dim m \<and>
          (\<forall>x\<in>set (point_forward (encoder m) p). 0 \<le> x)"
      if "b < B" "p \<in> set (cloud t b)" for b p
      using length_point_forward[OF we ke length_cloud_point[OF assms(2,1) that]]
        point_forward_last_ReLU[OF ne la] by simp
  qed
  then show "\<exists>gf. SimplePCN_global_feature m t = Inr gf \<and>
                  shape gf = [B, feature_dim m] \<and> (\<forall>x\<in>set (data gf). 0 \<le> x)"
    by (simp add: SimplePCN_global_feature_eq[OF v assms fd])
next
  assume v: "valid_PointCloudCompletionNet n"
  let ?el = "PointCloudEncoder_layers (net_encoder n)"
  from v have ne: "?el \<noteq> []" and la: "kind_of (last ?el) = KReLU"
    and we: "list_all wf_layer ?el"
    and ke: "chain (map kind_of ?el) 3 = Some 1024"
    by (auto simp: valid_PointCloudCompletionNet_def PointCloudEncoder_kinds_def
        last_map[symmetric] chain_PointCloudEncoder[unfolded PointCloudEncoder_kinds_def])
  have nn: "\<forall>x\<in>set (concat (map (\<lambda>b. global_max 1024
          (map (point_forward ?el) (cloud t b))) [0..<B])). 0 \<le> x"
  proof (rule concat_global_max_nonneg)
    show "cloud t b \<noteq> []" for b using assms(2,3) by (rule cloud_nonempty)
    show "length (point_forward ?el p) = 1024 \<and> (\<forall>x\<in>set (point_forward ?el p). 0 \<le> x)"
      if "b < B" "p \<in> set (cloud t b)" for b p
      using length_point_forward[OF we ke length_cloud_point[OF assms(2,1) that]]
        point_forward_last_ReLU[OF ne la] by simp
  qed
  from PointCloudEncoder_forward_eq[OF v assms] obtain xt where
    "transpose12 t = Inr xt"
    "PointCloudEncoder_forward (net_encoder n) xt =
       Inr \<lparr>shape = [B, 1024, 1], data = concat (map (\<lambda>b. global_max 1024
          (map (point_forward ?el) (cloud t b))) [0..<B])\<rparr>"
    by blast
  with nn show "\<exists>xt gf. transpose12 t = Inr xt \<and>
                  PointCloudEncoder_forward (net_encoder n) xt = Inr gf \<and>
                  shape gf = [B, 1024, 1] \<and> (\<forall>x\<in>set (data gf). 0 \<le> x)"
    by simp
qed

theorem global_descriptor_nonneg_witness:
  "(\<exists>gf. SimplePCN_global_feature (fst (create_model (\<lambda>i. 0))) two_points = Inr gf \<and>
         shape gf = [1, 512] \<and> (\<forall>x\<in>set (data gf). 0 \<le> x)) \<and>
   (\<exists>xt gf. transpose12 two_points = Inr xt \<and>
         PointCloudEncoder_forward (net_encoder (fst (create_pcn_model (\<lambda>i. 0)))) xt = Inr gf \<and>
         shape gf = [1, 1024, 1] \<and> (\<forall>x\<in>set (data gf). 0 \<le> x))"
  using global_descriptor_nonneg[of two_points 1 2 "fst (create_model (\<lambda>i. 0))"
      "fst (create_pcn_model (\<lambda>i. 0))"]
  by (simp add: wf_tensor_def valid_create_model valid_create_pcn_model two_points_def)

end
